theory Spec2Isabelle
  imports Main
begin

section \<open>The execution pipeline of smollm-sandbox: executor, compiler and environment\<close>

text \<open>
  This theory embeds the execution pipeline of package \<open>sandbox\<close>
  (\<open>executor.go\<close>, \<open>compiler.go\<close>, \<open>environment.go\<close>) and proves properties of it.

  What the Go code does to the operating system is made explicit in a record \<open>world\<close>:
  the files, the clock, the process table and a trace of the processes started and of the
  signals sent. How a started program behaves (when it exits, with which status, what it
  has written by a given time) is not decided by the Go code; it is the field
  \<open>programs\<close> of the world. The general theorems hold for every choice of it; the
  examples fix one.
  A call that waits for a process without a deadline may never return: such functions
  return a value of type \<open>'a run\<close>, whose value \<open>Hangs\<close> says that the call
  blocks for ever.

  Not modelled: the logger and its metrics, directories (a path is writable or not, by
  the field \<open>unwritable\<close>), I/O errors of \<open>io.Copy\<close>, \<open>os.Chmod\<close> and
  \<open>os.Remove\<close> on an open or existing file, errors of \<open>cmd.Wait\<close> other than
  the exit status, and \<open>filepath.Clean\<close> inside \<open>filepath.Join\<close> (the working
  directory is taken to be a clean path, as \<open>WORK_DIR\<close> is). Strings are byte
  strings; \<open>strings.ToLower\<close> is modelled on ASCII letters.
\<close>

subsection \<open>Constants (environment.go:18-22)\<close>

definition TIMEOUT_SECONDS :: int where
  "TIMEOUT_SECONDS = 30"

definition MAX_OUTPUT_SIZE :: int where
  "MAX_OUTPUT_SIZE = 1024 * 1024"

definition WORK_DIR :: string where
  "WORK_DIR = ''/tmp/smollm-sandbox''"

subsection \<open>Strings and paths (Go standard library, as documented)\<close>

definition to_lower_char :: "char \<Rightarrow> char" where
  "to_lower_char c =
     (case map_of (zip ''ABCDEFGHIJKLMNOPQRSTUVWXYZ'' ''abcdefghijklmnopqrstuvwxyz'') c of
        Some l \<Rightarrow> l
      | None \<Rightarrow> c)"

definition ToLower :: "string \<Rightarrow> string" where
  "ToLower s = map to_lower_char s"

definition HasPrefix :: "string \<Rightarrow> string \<Rightarrow> bool" where
  "HasPrefix s pre \<longleftrightarrow> take (length pre) s = pre"

definition HasSuffix :: "string \<Rightarrow> string \<Rightarrow> bool" where
  "HasSuffix s suf \<longleftrightarrow> length suf \<le> length s \<and> drop (length s - length suf) s = suf"

definition TrimSuffix :: "string \<Rightarrow> string \<Rightarrow> string" where
  "TrimSuffix s suf = (if HasSuffix s suf then take (length s - length suf) s else s)"

text \<open>
  \<open>filepath.Ext\<close>: the suffix beginning at the final dot in the final element of the
  path, empty if there is no dot. The scan runs from the end of the path, as the library's loop does.
\<close>

fun ext_scan :: "string \<Rightarrow> string \<Rightarrow> string" where
  "ext_scan [] acc = []"
| "ext_scan (c # cs) acc =
     (if c = CHR ''/'' then []
      else if c = CHR ''.'' then c # acc
      else ext_scan cs (c # acc))"

definition Ext :: "string \<Rightarrow> string" where
  "Ext path = ext_scan (rev path) []"

text \<open>
  \<open>filepath.Base\<close>: the last element of the path, trailing slashes removed first;
  \<open>.\<close> for the empty path and \<open>/\<close> for a path of slashes only.
\<close>

definition Base :: "string \<Rightarrow> string" where
  "Base path =
     (if path = [] then ''.''
      else
        let stripped = dropWhile (\<lambda>c. c = CHR ''/'') (rev path);
            last_elem = rev (takeWhile (\<lambda>c. c \<noteq> CHR ''/'') stripped)
        in if last_elem = [] then ''/'' else last_elem)"

text \<open>\<open>filepath.Join\<close> of two elements: empty elements are ignored.\<close>

definition Join :: "string \<Rightarrow> string \<Rightarrow> string" where
  "Join dir name =
     (if dir = [] then name
      else if name = [] then dir
      else dir @ ''/'' @ name)"

text \<open>The verb \<open>%d\<close> of \<open>fmt.Sprintf\<close> on an integer.\<close>

function dec :: "nat \<Rightarrow> string" where
  "dec n =
     (if n < 10 then [''0123456789'' ! n]
      else dec (n div 10) @ [''0123456789'' ! (n mod 10)])"
  by pat_completeness auto
termination
  by (relation "measure (\<lambda>n. n)") simp_all

declare dec.simps [simp del]

definition sprint_int :: "int \<Rightarrow> string" where
  "sprint_int i = (if i < 0 then ''-'' @ dec (nat (- i)) else dec (nat i))"

text \<open>
  \<open>time.Duration(timeout) * time.Second\<close>: a product of 64-bit signed integers, in
  nanoseconds; it wraps around.
\<close>

definition seconds :: "int \<Rightarrow> int" where
  "seconds t = (t * 1000000000 + 2 ^ 63) mod 2 ^ 64 - 2 ^ 63"

subsection \<open>The operating system\<close>

record file_node =
  content :: string
  perm :: nat

type_synonym fs = "string \<rightharpoonup> file_node"

text \<open>
  The behaviour of a program once it is asked to start: \<open>start_error\<close> is the error of
  \<open>cmd.Start\<close> if the program cannot be started; \<open>lifetime\<close> is the time in
  nanoseconds after which it exits by itself (\<open>None\<close>: it never does); \<open>status\<close>
  is its exit code; \<open>out_by t\<close> and \<open>err_by t\<close> are what it has written to its
  standard output and standard error after \<open>t\<close> nanoseconds, \<open>fs_by t\<close> what it has done
  to the files. \<open>exit_wins_tie\<close> is the choice of \<open>select\<close> when the exit and the
  deadline are ready at the same instant.
\<close>

record proc =
  start_error :: "string option"
  lifetime :: "nat option"
  status :: int
  out_by :: "nat \<Rightarrow> string"
  err_by :: "nat \<Rightarrow> string"
  fs_by :: "nat \<Rightarrow> fs \<Rightarrow> fs"
  exit_wins_tie :: bool

text \<open>
  The trace: \<open>Spawn pid name args setpgid\<close> is a process started, \<open>KillGroup pid\<close>
  is \<open>syscall.Kill(-pid, SIGKILL)\<close>, \<open>KillProcess pid\<close> is \<open>cmd.Process.Kill()\<close>.
\<close>

datatype event =
    Spawn nat string "string list" bool
  | KillGroup nat
  | KillProcess nat

record world =
  files :: fs
  unwritable :: "string \<Rightarrow> bool"
  clock :: int
  next_pid :: nat
  trace :: "event list"
  programs :: "string \<Rightarrow> string list \<Rightarrow> string \<Rightarrow> fs \<Rightarrow> proc"

datatype 'a run = Hangs | Returns 'a

datatype error =
    FileNotExist string
  | OpenFailed string
  | CreateFailed string
  | CopyFailed error
  | WriteFailed error
  | CompilationFailed error
  | UnsupportedFileType string
  | UnsupportedLanguage string
  | StartFailed string
  | CompilerExit "string option" int string
  | CompilerLaunch string
  | CompileTimeout int
  | RunTimeout int
  | OutputTooLarge int

definition chmod :: "string \<Rightarrow> nat \<Rightarrow> world \<Rightarrow> world" where
  "chmod path mode w =
     (case files w path of
        None \<Rightarrow> w
      | Some f \<Rightarrow> w\<lparr>files := (files w)(path \<mapsto> f\<lparr>perm := mode\<rparr>)\<rparr>)"

text \<open>
  \<open>os.Create\<close> and \<open>os.WriteFile\<close> open with \<open>O_CREATE|O_TRUNC\<close>: an existing file
  is emptied and keeps its permissions, a new one gets the permissions asked for.
\<close>

definition create_trunc :: "string \<Rightarrow> nat \<Rightarrow> world \<Rightarrow> world" where
  "create_trunc path mode w =
     w\<lparr>files := (files w)(path \<mapsto>
        \<lparr>content = [], perm = (case files w path of None \<Rightarrow> mode | Some f \<Rightarrow> perm f)\<rparr>)\<rparr>"

definition write_all :: "string \<Rightarrow> string \<Rightarrow> world \<Rightarrow> world" where
  "write_all path bytes w =
     (case files w path of
        None \<Rightarrow> w
      | Some f \<Rightarrow> w\<lparr>files := (files w)(path \<mapsto> f\<lparr>content := bytes\<rparr>)\<rparr>)"

definition read_all :: "string \<Rightarrow> world \<Rightarrow> string" where
  "read_all path w = (case files w path of None \<Rightarrow> [] | Some f \<Rightarrow> content f)"

definition WriteFile :: "string \<Rightarrow> string \<Rightarrow> nat \<Rightarrow> world \<Rightarrow> error option \<times> world" where
  "WriteFile path bytes mode w =
     (if unwritable w path then (Some (CreateFailed path), w)
      else (None, write_all path bytes (create_trunc path mode w)))"

definition Remove :: "string \<Rightarrow> world \<Rightarrow> world" where
  "Remove path w = w\<lparr>files := (files w)(path := None)\<rparr>"

text \<open>
  \<open>copyFile\<close> (executor.go:219-242): the source is opened, then the destination is
  created (and so emptied), then \<open>io.Copy\<close> reads what the source holds at that
  moment, then the destination is made executable (\<open>0755\<close>, that is 493).
\<close>

definition copyFile :: "string \<Rightarrow> string \<Rightarrow> world \<Rightarrow> error option \<times> world" where
  "copyFile src dst w =
     (if files w src = None then (Some (OpenFailed src), w)
      else if unwritable w dst then (Some (CreateFailed dst), w)
      else
        let w1 = create_trunc dst 438 w;
            w2 = write_all dst (read_all src w1) w1
        in (None, chmod dst 493 w2))"

text \<open>
  \<open>cmd.Run()\<close> with no deadline (compiler.go:157): it returns when the process has
  exited, and never if the process never exits.
\<close>

datatype waited =
    NotStarted string
  | Exited int string string nat

definition spawn :: "string \<Rightarrow> string list \<Rightarrow> bool \<Rightarrow> world \<Rightarrow> world" where
  "spawn name args setpgid w =
     w\<lparr>next_pid := Suc (next_pid w), trace := trace w @ [Spawn (next_pid w) name args setpgid]\<rparr>"

definition elapse :: "proc \<Rightarrow> nat \<Rightarrow> world \<Rightarrow> world" where
  "elapse p t w = w\<lparr>files := fs_by p t (files w), clock := clock w + int t\<rparr>"

definition cmd_Run :: "string \<Rightarrow> string list \<Rightarrow> string \<Rightarrow> world \<Rightarrow> (waited \<times> world) run" where
  "cmd_Run name args dir w =
     (let p = programs w name args dir (files w) in
      case start_error p of
        Some m \<Rightarrow> Returns (NotStarted m, w)
      | None \<Rightarrow>
          (case lifetime p of
             None \<Rightarrow> Hangs
           | Some t \<Rightarrow>
               Returns (Exited (status p) (out_by p t) (err_by p t) t,
                        elapse p t (spawn name args False w))))"

text \<open>
  A process raced against a deadline (\<open>select\<close> on the channel of \<open>cmd.Wait\<close> and on
  the timer). \<open>deadline\<close> is in nanoseconds; a deadline that is not positive has passed
  at once. \<open>whole_group\<close> says which kill the caller uses when the deadline wins.
\<close>

datatype raced =
    NoStart string
  | Done int string string nat
  | Expired string string nat

definition exits_first :: "proc \<Rightarrow> int \<Rightarrow> bool" where
  "exits_first p deadline =
     (case lifetime p of
        None \<Rightarrow> False
      | Some t \<Rightarrow> int t < deadline \<or> (int t = deadline \<and> exit_wins_tie p))"

definition kill :: "bool \<Rightarrow> nat \<Rightarrow> world \<Rightarrow> world" where
  "kill whole_group pid w =
     w\<lparr>trace := trace w @ [if whole_group then KillGroup pid else KillProcess pid]\<rparr>"

definition race :: "string \<Rightarrow> string list \<Rightarrow> string \<Rightarrow> bool \<Rightarrow> int \<Rightarrow> bool \<Rightarrow> world \<Rightarrow> raced \<times> world" where
  "race name args dir setpgid deadline whole_group w =
     (let p = programs w name args dir (files w) in
      case start_error p of
        Some m \<Rightarrow> (NoStart m, w)
      | None \<Rightarrow>
          (case (if exits_first p deadline then lifetime p else None) of
             Some t \<Rightarrow>
               (Done (status p) (out_by p t) (err_by p t) t,
                elapse p t (spawn name args setpgid w))
           | None \<Rightarrow>
               (let t = nat deadline in
                (Expired (out_by p t) (err_by p t) t,
                 kill whole_group (next_pid w) (elapse p t (spawn name args setpgid w))))))"

subsection \<open>The compiler (compiler.go)\<close>

record CompilerConfig =
  Command :: string
  Args :: "string list"
  OutputFlag :: string
  ErrorCodes :: "int \<rightharpoonup> string"
  NeedsCompiled :: bool

record Compiler =
  cworkDir :: string
  configs :: "string \<rightharpoonup> CompilerConfig"

record CompileResult =
  cSuccess :: bool
  cOutputFile :: string
  cError :: string
  cCompileTime :: int

text \<open>The messages of the compiler are Russian text; they are given as their UTF-8 bytes.\<close>

definition msg_python :: string where
  \<comment> \<open>compiler.go:48, "Python syntax error"\<close>
  "msg_python =
    [CHR 0xD0, CHR 0xA1, CHR 0xD0, CHR 0xB8, CHR 0xD0, CHR 0xBD, CHR 0xD1, CHR 0x82, CHR 0xD0,
     CHR 0xB0, CHR 0xD0, CHR 0xBA, CHR 0xD1, CHR 0x81, CHR 0xD0, CHR 0xB8, CHR 0xD1, CHR 0x87,
     CHR 0xD0, CHR 0xB5, CHR 0xD1, CHR 0x81, CHR 0xD0, CHR 0xBA, CHR 0xD0, CHR 0xB0, CHR 0xD1,
     CHR 0x8F, CHR 0x20, CHR 0xD0, CHR 0xBE, CHR 0xD1, CHR 0x88, CHR 0xD0, CHR 0xB8, CHR 0xD0,
     CHR 0xB1, CHR 0xD0, CHR 0xBA, CHR 0xD0, CHR 0xB0, CHR 0x20, CHR 0x50, CHR 0x79, CHR 0x74,
     CHR 0x68, CHR 0x6F, CHR 0x6E]"

definition msg_javascript :: string where
  \<comment> \<open>compiler.go:56, "JavaScript syntax error"\<close>
  "msg_javascript =
    [CHR 0xD0, CHR 0xA1, CHR 0xD0, CHR 0xB8, CHR 0xD0, CHR 0xBD, CHR 0xD1, CHR 0x82, CHR 0xD0,
     CHR 0xB0, CHR 0xD0, CHR 0xBA, CHR 0xD1, CHR 0x81, CHR 0xD0, CHR 0xB8, CHR 0xD1, CHR 0x87,
     CHR 0xD0, CHR 0xB5, CHR 0xD1, CHR 0x81, CHR 0xD0, CHR 0xBA, CHR 0xD0, CHR 0xB0, CHR 0xD1,
     CHR 0x8F, CHR 0x20, CHR 0xD0, CHR 0xBE, CHR 0xD1, CHR 0x88, CHR 0xD0, CHR 0xB8, CHR 0xD0,
     CHR 0xB1, CHR 0xD0, CHR 0xBA, CHR 0xD0, CHR 0xB0, CHR 0x20, CHR 0x4A, CHR 0x61, CHR 0x76,
     CHR 0x61, CHR 0x53, CHR 0x63, CHR 0x72, CHR 0x69, CHR 0x70, CHR 0x74]"

definition msg_go :: string where
  \<comment> \<open>compiler.go:65, "Go compilation error"\<close>
  "msg_go =
    [CHR 0xD0, CHR 0x9E, CHR 0xD1, CHR 0x88, CHR 0xD0, CHR 0xB8, CHR 0xD0, CHR 0xB1, CHR 0xD0,
     CHR 0xBA, CHR 0xD0, CHR 0xB0, CHR 0x20, CHR 0xD0, CHR 0xBA, CHR 0xD0, CHR 0xBE, CHR 0xD0,
     CHR 0xBC, CHR 0xD0, CHR 0xBF, CHR 0xD0, CHR 0xB8, CHR 0xD0, CHR 0xBB, CHR 0xD1, CHR 0x8F,
     CHR 0xD1, CHR 0x86, CHR 0xD0, CHR 0xB8, CHR 0xD0, CHR 0xB8, CHR 0x20, CHR 0x47, CHR 0x6F]"

definition msg_c :: string where
  \<comment> \<open>compiler.go:74, "C compilation error"\<close>
  "msg_c =
    [CHR 0xD0, CHR 0x9E, CHR 0xD1, CHR 0x88, CHR 0xD0, CHR 0xB8, CHR 0xD0, CHR 0xB1, CHR 0xD0,
     CHR 0xBA, CHR 0xD0, CHR 0xB0, CHR 0x20, CHR 0xD0, CHR 0xBA, CHR 0xD0, CHR 0xBE, CHR 0xD0,
     CHR 0xBC, CHR 0xD0, CHR 0xBF, CHR 0xD0, CHR 0xB8, CHR 0xD0, CHR 0xBB, CHR 0xD1, CHR 0x8F,
     CHR 0xD1, CHR 0x86, CHR 0xD0, CHR 0xB8, CHR 0xD0, CHR 0xB8, CHR 0x20, CHR 0x43]"

definition msg_cpp :: string where
  \<comment> \<open>compiler.go:83, "C++ compilation error"\<close>
  "msg_cpp =
    [CHR 0xD0, CHR 0x9E, CHR 0xD1, CHR 0x88, CHR 0xD0, CHR 0xB8, CHR 0xD0, CHR 0xB1, CHR 0xD0,
     CHR 0xBA, CHR 0xD0, CHR 0xB0, CHR 0x20, CHR 0xD0, CHR 0xBA, CHR 0xD0, CHR 0xBE, CHR 0xD0,
     CHR 0xBC, CHR 0xD0, CHR 0xBF, CHR 0xD0, CHR 0xB8, CHR 0xD0, CHR 0xBB, CHR 0xD1, CHR 0x8F,
     CHR 0xD1, CHR 0x86, CHR 0xD0, CHR 0xB8, CHR 0xD0, CHR 0xB8, CHR 0x20, CHR 0x43, CHR 0x2B,
     CHR 0x2B]"

definition msg_bash :: string where
  \<comment> \<open>compiler.go:91, "Bash syntax error"\<close>
  "msg_bash =
    [CHR 0xD0, CHR 0xA1, CHR 0xD0, CHR 0xB8, CHR 0xD0, CHR 0xBD, CHR 0xD1, CHR 0x82, CHR 0xD0,
     CHR 0xB0, CHR 0xD0, CHR 0xBA, CHR 0xD1, CHR 0x81, CHR 0xD0, CHR 0xB8, CHR 0xD1, CHR 0x87,
     CHR 0xD0, CHR 0xB5, CHR 0xD1, CHR 0x81, CHR 0xD0, CHR 0xBA, CHR 0xD0, CHR 0xB0, CHR 0xD1,
     CHR 0x8F, CHR 0x20, CHR 0xD0, CHR 0xBE, CHR 0xD1, CHR 0x88, CHR 0xD0, CHR 0xB8, CHR 0xD0,
     CHR 0xB1, CHR 0xD0, CHR 0xBA, CHR 0xD0, CHR 0xB0, CHR 0x20, CHR 0x42, CHR 0x61, CHR 0x73,
     CHR 0x68]"

definition msg_no_output_file :: string where
  \<comment> \<open>compiler.go:192, "compilation did not create the output file"\<close>
  "msg_no_output_file =
    [CHR 0xD0, CHR 0xBA, CHR 0xD0, CHR 0xBE, CHR 0xD0, CHR 0xBC, CHR 0xD0, CHR 0xBF, CHR 0xD0,
     CHR 0xB8, CHR 0xD0, CHR 0xBB, CHR 0xD1, CHR 0x8F, CHR 0xD1, CHR 0x86, CHR 0xD0, CHR 0xB8,
     CHR 0xD1, CHR 0x8F, CHR 0x20, CHR 0xD0, CHR 0xBD, CHR 0xD0, CHR 0xB5, CHR 0x20, CHR 0xD1,
     CHR 0x81, CHR 0xD0, CHR 0xBE, CHR 0xD0, CHR 0xB7, CHR 0xD0, CHR 0xB4, CHR 0xD0, CHR 0xB0,
     CHR 0xD0, CHR 0xBB, CHR 0xD0, CHR 0xB0, CHR 0x20, CHR 0xD0, CHR 0xB2, CHR 0xD1, CHR 0x8B,
     CHR 0xD1, CHR 0x85, CHR 0xD0, CHR 0xBE, CHR 0xD0, CHR 0xB4, CHR 0xD0, CHR 0xBD, CHR 0xD0,
     CHR 0xBE, CHR 0xD0, CHR 0xB9, CHR 0x20, CHR 0xD1, CHR 0x84, CHR 0xD0, CHR 0xB0, CHR 0xD0,
     CHR 0xB9, CHR 0xD0, CHR 0xBB]"

definition msg_compiler_launch :: string where
  \<comment> \<open>compiler.go:182, "compiler launch error: " (the prefix of the format string)\<close>
  "msg_compiler_launch =
    [CHR 0xD0, CHR 0xBE, CHR 0xD1, CHR 0x88, CHR 0xD0, CHR 0xB8, CHR 0xD0, CHR 0xB1, CHR 0xD0,
     CHR 0xBA, CHR 0xD0, CHR 0xB0, CHR 0x20, CHR 0xD0, CHR 0xB7, CHR 0xD0, CHR 0xB0, CHR 0xD0,
     CHR 0xBF, CHR 0xD1, CHR 0x83, CHR 0xD1, CHR 0x81, CHR 0xD0, CHR 0xBA, CHR 0xD0, CHR 0xB0,
     CHR 0x20, CHR 0xD0, CHR 0xBA, CHR 0xD0, CHR 0xBE, CHR 0xD0, CHR 0xBC, CHR 0xD0, CHR 0xBF,
     CHR 0xD0, CHR 0xB8, CHR 0xD0, CHR 0xBB, CHR 0xD1, CHR 0x8F, CHR 0xD1, CHR 0x82, CHR 0xD0,
     CHR 0xBE, CHR 0xD1, CHR 0x80, CHR 0xD0, CHR 0xB0, CHR 0x3A, CHR 0x20]"

definition NewCompiler :: "string \<Rightarrow> Compiler" where
  "NewCompiler dir =
     \<lparr>cworkDir = dir,
      configs = [
        ''.py'' \<mapsto> \<lparr>Command = ''python3'', Args = [''-m'', ''py_compile''], OutputFlag = [],
                   ErrorCodes = [1 \<mapsto> msg_python], NeedsCompiled = False\<rparr>,
        ''.js'' \<mapsto> \<lparr>Command = ''node'', Args = [''--check''], OutputFlag = [],
                   ErrorCodes = [1 \<mapsto> msg_javascript], NeedsCompiled = False\<rparr>,
        ''.go'' \<mapsto> \<lparr>Command = ''go'', Args = [''build''], OutputFlag = ''-o'',
                   ErrorCodes = [1 \<mapsto> msg_go], NeedsCompiled = True\<rparr>,
        ''.c'' \<mapsto> \<lparr>Command = ''gcc'', Args = [''-Wall'', ''-O2''], OutputFlag = ''-o'',
                  ErrorCodes = [1 \<mapsto> msg_c], NeedsCompiled = True\<rparr>,
        ''.cpp'' \<mapsto> \<lparr>Command = ''g++'', Args = [''-Wall'', ''-O2'', ''-std=c++17''],
                    OutputFlag = ''-o'', ErrorCodes = [1 \<mapsto> msg_cpp], NeedsCompiled = True\<rparr>,
        ''.sh'' \<mapsto> \<lparr>Command = ''bash'', Args = [''-n''], OutputFlag = [],
                   ErrorCodes = [1 \<mapsto> msg_bash], NeedsCompiled = False\<rparr>]\<rparr>"

text \<open>The name of the artifact and the command line (compiler.go:114-143).\<close>

definition output_file :: "string \<Rightarrow> string \<Rightarrow> string" where
  "output_file sourcePath ext =
     (let outputFile = TrimSuffix sourcePath ext
      in if ext = ''.c'' \<or> ext = ''.cpp'' then outputFile @ ''.out'' else outputFile)"

definition compile_args :: "CompilerConfig \<Rightarrow> string \<Rightarrow> string \<Rightarrow> string list" where
  "compile_args config outputFile sourcePath =
     (if NeedsCompiled config then
        Args config @ (if OutputFlag config \<noteq> [] then [OutputFlag config, outputFile] else [])
          @ [sourcePath]
      else Args config @ [sourcePath])"

text \<open>What \<open>Compile\<close> makes of the end of the compiler process (compiler.go:160-205).\<close>

definition compile_outcome ::
  "CompilerConfig \<Rightarrow> string \<Rightarrow> waited \<Rightarrow> world \<Rightarrow> CompileResult \<times> world" where
  "compile_outcome config outputFile res w =
     (case res of
        NotStarted m \<Rightarrow>
          (\<lparr>cSuccess = False, cOutputFile = [], cError = msg_compiler_launch @ m,
            cCompileTime = 0\<rparr>, w)
      | Exited code out err t \<Rightarrow>
          if code \<noteq> 0 then
            (\<lparr>cSuccess = False, cOutputFile = [],
              cError = (case ErrorCodes config code of
                          Some customMsg \<Rightarrow> customMsg @ '': '' @ err
                        | None \<Rightarrow> err),
              cCompileTime = int t\<rparr>, w)
          else if NeedsCompiled config then
            (if files w outputFile = None then
               (\<lparr>cSuccess = False, cOutputFile = [], cError = msg_no_output_file,
                 cCompileTime = int t\<rparr>, w)
             else
               (\<lparr>cSuccess = True, cOutputFile = outputFile, cError = [],
                 cCompileTime = int t\<rparr>, chmod outputFile 493 w))
          else
            (\<lparr>cSuccess = True, cOutputFile = outputFile, cError = [],
              cCompileTime = int t\<rparr>, w))"

definition Compile ::
  "Compiler \<Rightarrow> string \<Rightarrow> world \<Rightarrow> ((error + CompileResult) \<times> world) run" where
  "Compile c sourcePath w =
     (let ext = ToLower (Ext sourcePath) in
      case configs c ext of
        None \<Rightarrow> Returns (Inl (UnsupportedFileType ext), w)
      | Some config \<Rightarrow>
          (let outputFile = output_file sourcePath ext in
           case cmd_Run (Command config) (compile_args config outputFile sourcePath)
                  (cworkDir c) w of
             Hangs \<Rightarrow> Hangs
           | Returns (res, w') \<Rightarrow>
               (let (r, w'') = compile_outcome config outputFile res w'
                in Returns (Inr r, w''))))"

text \<open>
  Whether the wait of \<open>Compile\<close> comes to an end: there is no profile to run, or
  the compiler cannot be started, or it exits.
\<close>

definition compiler_ends :: "Compiler \<Rightarrow> string \<Rightarrow> world \<Rightarrow> bool" where
  "compiler_ends c sourcePath w =
     (let ext = ToLower (Ext sourcePath) in
      case configs c ext of
        None \<Rightarrow> True
      | Some config \<Rightarrow>
          (let p = programs w (Command config)
                     (compile_args config (output_file sourcePath ext) sourcePath)
                     (cworkDir c) (files w)
           in start_error p \<noteq> None \<or> lifetime p \<noteq> None))"

subsection \<open>The executor (executor.go)\<close>

record Executor =
  workDir :: string
  maxOutputSize :: int
  timeouts :: "string \<rightharpoonup> int"
  compiler :: Compiler

record ExecuteResult =
  Success :: bool
  Output :: string
  Error :: string
  ExitCode :: int
  ExecuteTime :: int
  CompileTime :: int
  Compiled :: bool
  Language :: string

definition NewExecutor :: "string \<Rightarrow> Executor" where
  "NewExecutor dir =
     \<lparr>workDir = dir,
      maxOutputSize = MAX_OUTPUT_SIZE,
      timeouts = [
        ''.py'' \<mapsto> TIMEOUT_SECONDS,
        ''.js'' \<mapsto> TIMEOUT_SECONDS,
        ''.go'' \<mapsto> TIMEOUT_SECONDS * 2,
        ''.c'' \<mapsto> TIMEOUT_SECONDS * 2,
        ''.cpp'' \<mapsto> TIMEOUT_SECONDS * 2,
        ''.sh'' \<mapsto> TIMEOUT_SECONDS],
      compiler = NewCompiler dir\<rparr>"

text \<open>The test of executor.go:93 and the switch of executor.go:126-137.\<close>

definition needs_compile :: "string \<Rightarrow> bool" where
  "needs_compile ext \<longleftrightarrow> ext = ''.c'' \<or> ext = ''.cpp'' \<or> ext = ''.go''"

definition run_command :: "string \<Rightarrow> string \<Rightarrow> (string \<times> string list) option" where
  "run_command ext executablePath =
     (if ext = ''.py'' then Some (''python3'', [executablePath])
      else if ext = ''.js'' then Some (''node'', [executablePath])
      else if ext = ''.sh'' then Some (''bash'', [executablePath])
      else if ext = ''.c'' \<or> ext = ''.cpp'' \<or> ext = ''.go'' then Some (executablePath, [])
      else None)"

definition timeout_of :: "(string \<rightharpoonup> int) \<Rightarrow> string \<Rightarrow> int" where
  "timeout_of ts ext = (case ts ext of Some t \<Rightarrow> t | None \<Rightarrow> TIMEOUT_SECONDS)"

text \<open>
  The value of \<open>executeErr\<close> (executor.go:166-182): the error of \<open>cmd.Wait\<close> (an
  \<open>*exec.ExitError\<close> when the exit status is not 0), the error made when the deadline
  has passed, or the error made when the output is too long.
\<close>

datatype wait_error =
    ExitError int
  | DeadlineExceeded int
  | OutputExceeded int

definition exit_code_of :: "wait_error option \<Rightarrow> int" where
  "exit_code_of executeErr = (case executeErr of Some (ExitError c) \<Rightarrow> c | _ \<Rightarrow> 0)"

text \<open>The second half of \<open>ExecuteFile\<close> (executor.go:113-215): the run of the staged file.\<close>

definition run_staged ::
  "Executor \<Rightarrow> string \<Rightarrow> string \<Rightarrow> CompileResult option \<Rightarrow> world
     \<Rightarrow> (error + ExecuteResult) \<times> world" where
  "run_staged e ext executablePath compileResult w =
     (let timeout = timeout_of (timeouts e) ext in
      case run_command ext executablePath of
        None \<Rightarrow> (Inl (UnsupportedFileType ext), w)
      | Some (name, args) \<Rightarrow>
          (case race name args (workDir e) True (seconds timeout) True w of
             (NoStart m, w') \<Rightarrow> (Inl (StartFailed m), w')
           | (outcome, w') \<Rightarrow>
               (let (waitErr, stdout, stderr, executeTime) =
                      (case outcome of
                         Expired out err t \<Rightarrow> (Some (DeadlineExceeded timeout), out, err, t)
                       | Done code out err t \<Rightarrow>
                           (if code = 0 then None else Some (ExitError code), out, err, t)
                       | NoStart m \<Rightarrow> (None, [], [], 0));
                    executeErr =
                      (if int (length stdout) > maxOutputSize e
                       then Some (OutputExceeded (maxOutputSize e)) else waitErr)
                in (Inr \<lparr>Success = (executeErr = None),
                          Output = stdout,
                          Error = stderr,
                          ExitCode = exit_code_of executeErr,
                          ExecuteTime = int executeTime,
                          CompileTime = (case compileResult of
                                           Some cr \<Rightarrow> cCompileTime cr | None \<Rightarrow> 0),
                          Compiled = (compileResult \<noteq> None),
                          Language = ext\<rparr>, w'))))"

definition ExecuteFile ::
  "Executor \<Rightarrow> string \<Rightarrow> world \<Rightarrow> ((error + ExecuteResult) \<times> world) run" where
  "ExecuteFile e filePath w =
     (if files w filePath = None then Returns (Inl (FileNotExist filePath), w)
      else
        let ext = ToLower (Ext filePath);
            baseName = Base filePath;
            tempFile = Join (workDir e) baseName
        in case copyFile filePath tempFile w of
             (Some err, w1) \<Rightarrow> Returns (Inl (CopyFailed err), w1)
           | (None, w1) \<Rightarrow>
               if needs_compile ext then
                 (case Compile (compiler e) tempFile w1 of
                    Hangs \<Rightarrow> Hangs
                  | Returns (Inl err, w2) \<Rightarrow> Returns (Inl (CompilationFailed err), w2)
                  | Returns (Inr compileResult, w2) \<Rightarrow>
                      if \<not> cSuccess compileResult then
                        Returns (Inr \<lparr>Success = False, Output = [],
                                      Error = cError compileResult,
                                      ExitCode = 0, ExecuteTime = 0,
                                      CompileTime = cCompileTime compileResult,
                                      Compiled = True, Language = ext\<rparr>, w2)
                      else
                        Returns (run_staged e ext (cOutputFile compileResult)
                                   (Some compileResult) w2))
               else Returns (run_staged e ext tempFile None w1))"

text \<open>\<open>ExecuteCode\<close> (executor.go:243-280).\<close>

definition language_ext :: "string \<Rightarrow> string option" where
  "language_ext language =
     (let l = ToLower language in
      if l = ''python'' then Some ''.py''
      else if l = ''javascript'' \<or> l = ''js'' then Some ''.js''
      else if l = ''go'' \<or> l = ''golang'' then Some ''.go''
      else if l = ''c'' then Some ''.c''
      else if l = ''cpp'' \<or> l = ''c++'' then Some ''.cpp''
      else if l = ''bash'' \<or> l = ''sh'' then Some ''.sh''
      else None)"

definition temp_name :: "int \<Rightarrow> string \<Rightarrow> string" where
  "temp_name timestamp ext = ''tmp_'' @ sprint_int timestamp @ ext"

definition ExecuteCode ::
  "Executor \<Rightarrow> string \<Rightarrow> string \<Rightarrow> world \<Rightarrow> ((error + ExecuteResult) \<times> world) run" where
  "ExecuteCode e code language w =
     (case language_ext language of
        None \<Rightarrow> Returns (Inl (UnsupportedLanguage language), w)
      | Some ext \<Rightarrow>
          (let timestamp = clock w;
               fileName = temp_name timestamp ext;
               filePath = Join (workDir e) fileName
           in case WriteFile filePath code 493 w of
                (Some err, w1) \<Rightarrow> Returns (Inl (WriteFailed err), w1)
              | (None, w1) \<Rightarrow>
                  (case ExecuteFile e filePath w1 of
                     Hangs \<Rightarrow> Hangs
                   | Returns (result, w2) \<Rightarrow> Returns (result, Remove filePath w2))))"

subsection \<open>The environment (environment.go)\<close>

record Environment =
  eworkDir :: string
  etimeouts :: "string \<rightharpoonup> int"
  executor :: Executor

record ExecutionResult =
  xOutput :: string
  xError :: string
  xExitCode :: int
  xExecuteTime :: int

definition NewEnvironment :: Environment where
  "NewEnvironment =
     \<lparr>eworkDir = WORK_DIR,
      etimeouts = [
        ''.py'' \<mapsto> TIMEOUT_SECONDS,
        ''.js'' \<mapsto> TIMEOUT_SECONDS,
        ''.go'' \<mapsto> TIMEOUT_SECONDS * 2,
        ''.c'' \<mapsto> TIMEOUT_SECONDS * 2,
        ''.cpp'' \<mapsto> TIMEOUT_SECONDS * 2],
      executor = NewExecutor WORK_DIR\<rparr>"

text \<open>
  The reports of \<open>Execute\<close> and \<open>ExecuteCode\<close> are texts; a report is kept here as
  the parts the text is made of: the execution time, the compile time when it is printed
  and the output for a success; the exit code, the error text and the output for a
  failure; the error text for what \<open>ExecuteCode\<close> prints as a compilation error.
\<close>

datatype report =
    Succeeded int "int option" string
  | Failed int string string
  | CompileError string

definition Execute :: "Environment \<Rightarrow> string \<Rightarrow> world \<Rightarrow> ((error + report) \<times> world) run" where
  "Execute e filename w =
     (case ExecuteFile (executor e) filename w of
        Hangs \<Rightarrow> Hangs
      | Returns (Inl err, w') \<Rightarrow> Returns (Inl err, w')
      | Returns (Inr result, w') \<Rightarrow>
          Returns (Inr (if Success result
                        then Succeeded (ExecuteTime result) None (Output result)
                        else Failed (ExitCode result) (Error result) (Output result)), w'))"

definition EnvExecuteCode ::
  "Environment \<Rightarrow> string \<Rightarrow> string \<Rightarrow> world \<Rightarrow> ((error + report) \<times> world) run" where
  "EnvExecuteCode e code language w =
     (case ExecuteCode (executor e) code language w of
        Hangs \<Rightarrow> Hangs
      | Returns (Inl err, w') \<Rightarrow> Returns (Inl err, w')
      | Returns (Inr result, w') \<Rightarrow>
          Returns (Inr (if Success result
                        then Succeeded (ExecuteTime result)
                               (if Compiled result then Some (CompileTime result) else None)
                               (Output result)
                        else if Compiled result then CompileError (Error result)
                        else Failed (ExitCode result) (Error result) (Output result)), w'))"

definition getCompilerConfig :: "string \<Rightarrow> error + CompilerConfig" where
  "getCompilerConfig fileExt =
     (let ext = ToLower fileExt in
      if ext = ''.py'' then
        Inr \<lparr>Command = ''python3'', Args = [''-m'', ''py_compile''], OutputFlag = [],
             ErrorCodes = [1 \<mapsto> msg_python], NeedsCompiled = False\<rparr>
      else if ext = ''.js'' then
        Inr \<lparr>Command = ''node'', Args = [''--check''], OutputFlag = [],
             ErrorCodes = [1 \<mapsto> msg_javascript], NeedsCompiled = False\<rparr>
      else if ext = ''.go'' then
        Inr \<lparr>Command = ''go'', Args = [''build''], OutputFlag = ''-o'',
             ErrorCodes = [1 \<mapsto> msg_go], NeedsCompiled = True\<rparr>
      else if ext = ''.c'' then
        Inr \<lparr>Command = ''gcc'', Args = [], OutputFlag = ''-o'',
             ErrorCodes = [1 \<mapsto> msg_c], NeedsCompiled = True\<rparr>
      else if ext = ''.cpp'' then
        Inr \<lparr>Command = ''g++'', Args = [], OutputFlag = ''-o'',
             ErrorCodes = [1 \<mapsto> msg_cpp], NeedsCompiled = True\<rparr>
      else if ext = ''.sh'' then
        Inr \<lparr>Command = ''bash'', Args = [''-n''], OutputFlag = [],
             ErrorCodes = [1 \<mapsto> msg_bash], NeedsCompiled = False\<rparr>
      else Inl (UnsupportedFileType fileExt))"

text \<open>
  \<open>compile\<close> (environment.go:165-237): the compiler is raced against a timer, and
  \<open>cmd.Process.Kill()\<close> ends it when the timer wins.
\<close>

definition compile ::
  "Environment \<Rightarrow> string \<Rightarrow> CompilerConfig \<Rightarrow> world \<Rightarrow> (error + string) \<times> world" where
  "compile e filename config w =
     (let trimmed = TrimSuffix filename (Ext filename);
          outputFile = (if HasSuffix filename ''.c'' \<or> HasSuffix filename ''.cpp''
                        then trimmed @ ''.out'' else trimmed);
          args = Args config
                   @ (if OutputFlag config \<noteq> [] then [OutputFlag config, outputFile] else [])
                   @ [filename];
          timeout = timeout_of (etimeouts e) (Ext filename)
      in case race (Command config) args (eworkDir e) False (seconds timeout) False w of
           (NoStart m, w') \<Rightarrow> (Inl (CompilerLaunch m), w')
         | (Done code out err t, w') \<Rightarrow>
             if code \<noteq> 0 then (Inl (CompilerExit (ErrorCodes config code) code err), w')
             else (Inr outputFile, w')
         | (Expired out err t, w') \<Rightarrow> (Inl (CompileTimeout timeout), w'))"

text \<open>
  \<open>runFile\<close> (environment.go:240-323). A program that cannot be started reaches the
  channel as an error that is no \<open>*exec.ExitError\<close>: the exit code stays 0 and a
  result is returned.
\<close>

definition runFile ::
  "Environment \<Rightarrow> string \<Rightarrow> CompilerConfig \<Rightarrow> world \<Rightarrow> (error + ExecutionResult) \<times> world" where
  "runFile e filename config w =
     (let ext = Ext filename;
          cmd = (if ext = ''.py'' then Some (''python3'', [filename])
                 else if ext = ''.js'' then Some (''node'', [filename])
                 else if ext = ''.sh'' then Some (''bash'', [filename])
                 else if NeedsCompiled config then Some (filename, [])
                 else None);
          timeout = timeout_of (etimeouts e) ext
      in case cmd of
           None \<Rightarrow> (Inl (UnsupportedFileType ext), w)
         | Some (name, args) \<Rightarrow>
             (case race name args (eworkDir e) True (seconds timeout) True w of
                (Expired out err t, w') \<Rightarrow> (Inl (RunTimeout timeout), w')
              | (NoStart m, w') \<Rightarrow>
                  (Inr \<lparr>xOutput = [], xError = [], xExitCode = 0, xExecuteTime = 0\<rparr>, w')
              | (Done code out err t, w') \<Rightarrow>
                  if int (length out) > MAX_OUTPUT_SIZE then (Inl (OutputTooLarge MAX_OUTPUT_SIZE), w')
                  else (Inr \<lparr>xOutput = out, xError = err, xExitCode = code,
                             xExecuteTime = int t\<rparr>, w')))"

definition GetSupportedLanguages :: "string list" where
  "GetSupportedLanguages = [''python'', ''javascript'', ''go'', ''c'', ''c++'', ''bash'']"

text \<open>
  \<open>CheckFileSecurity\<close> (environment.go:376-436). The scan for suspicious patterns
  only writes warnings to the log and has no part in the value returned.
\<close>

datatype security_error =
    NoSuchFile string
  | FileTooLarge nat nat
  | BadExtension string

definition CheckFileSecurity :: "string \<Rightarrow> world \<Rightarrow> security_error option" where
  "CheckFileSecurity filename w =
     (case files w filename of
        None \<Rightarrow> Some (NoSuchFile filename)
      | Some f \<Rightarrow>
          let maxSize = 10 * 1024 * 1024;
              ext = ToLower (Ext filename)
          in if length (content f) > maxSize then Some (FileTooLarge (length (content f)) maxSize)
             else if ext \<notin> set [''.py'', ''.js'', ''.go'', ''.c'', ''.cpp'', ''.sh'', ''.txt'', ''.md'',
                                  ''.json'', ''.csv'']
             then Some (BadExtension ext)
             else None)"

definition SetResourceLimits :: "Environment \<Rightarrow> int \<Rightarrow> int \<Rightarrow> int \<Rightarrow> Environment" where
  "SetResourceLimits e cpuPercent memoryMB timeoutSeconds =
     e\<lparr>etimeouts := (\<lambda>ext. case etimeouts e ext of
                               None \<Rightarrow> None
                             | Some t \<Rightarrow> Some timeoutSeconds)\<rparr>"

text \<open>
  \<open>CleanupTempFiles\<close> (environment.go:453-478): every file of the working directory
  whose name starts with \<open>tmp_\<close> is removed.
\<close>

definition CleanupTempFiles :: "Environment \<Rightarrow> world \<Rightarrow> world" where
  "CleanupTempFiles e w =
     w\<lparr>files := (\<lambda>path. if path = Join (eworkDir e) (Base path) \<and> HasPrefix (Base path) ''tmp_''
                          then None else files w path)\<rparr>"

definition GetWorkDir :: "Environment \<Rightarrow> string" where
  "GetWorkDir e = eworkDir e"

definition GetTimeout :: "Environment \<Rightarrow> string \<Rightarrow> int" where
  "GetTimeout e fileExt = timeout_of (etimeouts e) fileExt"

text \<open>
  The exported operations of the environment, and those of its executor called
  directly, as steps on the state: each step gives the environment and the world after
  the call. \<open>SetResourceLimits\<close> is the only method that assigns to a field of the
  environment, of the executor or of the compiler; every other step returns the
  environment it was given.
\<close>

datatype env_op =
    OpExecute string
  | OpExecuteCode string string
  | OpGetSupportedLanguages
  | OpCheckFileSecurity string
  | OpSetResourceLimits int int int
  | OpCleanupTempFiles
  | OpGetWorkDir
  | OpGetTimeout string
  | OpExecutorExecuteFile string
  | OpExecutorExecuteCode string string

fun env_step :: "env_op \<Rightarrow> Environment \<times> world \<Rightarrow> (Environment \<times> world) run" where
  "env_step (OpExecute filename) (e, w) =
     (case Execute e filename w of Hangs \<Rightarrow> Hangs | Returns (r, w') \<Rightarrow> Returns (e, w'))"
| "env_step (OpExecuteCode code language) (e, w) =
     (case EnvExecuteCode e code language w of Hangs \<Rightarrow> Hangs | Returns (r, w') \<Rightarrow> Returns (e, w'))"
| "env_step OpGetSupportedLanguages (e, w) = Returns (e, w)"
| "env_step (OpCheckFileSecurity filename) (e, w) = Returns (e, w)"
| "env_step (OpSetResourceLimits cpuPercent memoryMB timeoutSeconds) (e, w) =
     Returns (SetResourceLimits e cpuPercent memoryMB timeoutSeconds, w)"
| "env_step OpCleanupTempFiles (e, w) = Returns (e, CleanupTempFiles e w)"
| "env_step OpGetWorkDir (e, w) = Returns (e, w)"
| "env_step (OpGetTimeout fileExt) (e, w) = Returns (e, w)"
| "env_step (OpExecutorExecuteFile filePath) (e, w) =
     (case ExecuteFile (executor e) filePath w of Hangs \<Rightarrow> Hangs | Returns (r, w') \<Rightarrow> Returns (e, w'))"
| "env_step (OpExecutorExecuteCode code language) (e, w) =
     (case ExecuteCode (executor e) code language w of
        Hangs \<Rightarrow> Hangs
      | Returns (r, w') \<Rightarrow> Returns (e, w'))"

text \<open>
  The \<open>timeoutSeconds\<close> of the last \<open>SetResourceLimits\<close> of a sequence of
  operations, if there is one.
\<close>

fun last_limit :: "env_op list \<Rightarrow> int option" where
  "last_limit [] = None"
| "last_limit (op # ops) =
     (case last_limit ops of
        Some t \<Rightarrow> Some t
      | None \<Rightarrow> (case op of OpSetResourceLimits cpuPercent memoryMB t \<Rightarrow> Some t | _ \<Rightarrow> None))"

fun env_steps :: "env_op list \<Rightarrow> Environment \<times> world \<Rightarrow> (Environment \<times> world) run" where
  "env_steps [] s = Returns s"
| "env_steps (op # ops) s =
     (case env_step op s of Hangs \<Rightarrow> Hangs | Returns s' \<Rightarrow> env_steps ops s')"

subsection \<open>Example programs and worlds\<close>

text \<open>
  \<open>exits_with t code out err\<close> is a program that exits after \<open>t\<close> nanoseconds with the
  given status, output and error text; \<open>never_exits out\<close> writes \<open>out\<close> at once and
  then runs for ever. Neither touches a file.
\<close>

definition exits_with :: "nat \<Rightarrow> int \<Rightarrow> string \<Rightarrow> string \<Rightarrow> proc" where
  "exits_with t code out err =
     \<lparr>start_error = None, lifetime = Some t, status = code,
      out_by = (\<lambda>_. out), err_by = (\<lambda>_. err), fs_by = (\<lambda>_ fs. fs), exit_wins_tie = True\<rparr>"

definition never_exits :: "string \<Rightarrow> proc" where
  "never_exits out =
     \<lparr>start_error = None, lifetime = None, status = 0,
      out_by = (\<lambda>_. out), err_by = (\<lambda>_. []), fs_by = (\<lambda>_ fs. fs), exit_wins_tie = False\<rparr>"

definition example_world ::
  "(string \<Rightarrow> string list \<Rightarrow> string \<Rightarrow> fs \<Rightarrow> proc) \<Rightarrow> fs \<Rightarrow> world" where
  "example_world progs fs =
     \<lparr>files = fs, unwritable = (\<lambda>_. False), clock = 1700000000000000000, next_pid = 100,
      trace = [], programs = progs\<rparr>"

definition source_file :: "string \<Rightarrow> file_node" where
  "source_file text = \<lparr>content = text, perm = 420\<rparr>"

definition xyz_world :: world where
  "xyz_world =
     example_world (\<lambda>_ _ _ _. exits_with 1000 0 [] [])
       [''/home/u/prog.xyz'' \<mapsto> source_file ''hello'']"




text \<open>A C compiler that rejects the source: status 1 and a diagnostic on standard error.\<close>

definition bad_cc_world :: world where
  "bad_cc_world =
     example_world (\<lambda>_ _ _ _. exits_with 3000 1 [] ''prog.c:1:1: error: expected identifier'')
       [''/home/u/prog.c'' \<mapsto> source_file ''int main({'']"

text \<open>The value of a string of decimal digits, to read back what \<open>dec\<close> has written.\<close>

definition digit_val :: "char \<Rightarrow> nat" where
  "digit_val c = (case map_of (zip ''0123456789'' [0, 1, 2, 3, 4, 5, 6, 7, 8, 9]) c of Some d \<Rightarrow> d | None \<Rightarrow> 0)"

definition dec_val :: "string \<Rightarrow> nat" where
  "dec_val s = foldl (\<lambda>a c. a * 10 + digit_val c) 0 s"

text \<open>
  A Python interpreter that prints \<open>42\<close> when the file it is given holds
  \<open>print(42)\<close>, and prints nothing for any other file.
\<close>

definition toy_python :: "string \<Rightarrow> string list \<Rightarrow> string \<Rightarrow> fs \<Rightarrow> proc" where
  "toy_python name args dir fs =
     (if name = ''python3''
         \<and> (case args of
               [path] \<Rightarrow> map_option content (fs path) = Some ''print(42)''
             | _ \<Rightarrow> False)
      then exits_with 1000 0 (''42'' @ [CHR 0x0A]) []
      else exits_with 1000 0 [] [])"

definition py_world :: world where
  "py_world = example_world toy_python Map.empty"

text \<open>The value a call has returned, if it has.\<close>

definition returned :: "'a run \<Rightarrow> 'a option" where
  "returned r = (case r of Hangs \<Rightarrow> None | Returns x \<Rightarrow> Some x)"

text \<open>
  An interpreter that writes one byte more than \<open>MAX_OUTPUT_SIZE\<close> and exits with
  status 0 after 1000 nanoseconds; one that writes as much and never exits; one that
  writes as much and exits with status 1 after 1000 nanoseconds; one that writes as much
  and exits with status 1 at the very instant of the deadline of 30 seconds, where
  \<open>select\<close> takes the exit.
\<close>

definition flood :: string where
  "flood = replicate 1048577 (CHR ''x'')"

definition flood_world :: world where
  "flood_world =
     example_world (\<lambda>_ _ _ _. exits_with 1000 0 flood [])
       [''/home/u/big.py'' \<mapsto> source_file ''print(1)'']"

definition flood_forever_world :: world where
  "flood_forever_world =
     example_world (\<lambda>_ _ _ _. never_exits flood)
       [''/home/u/big.py'' \<mapsto> source_file ''print(1)'']"

definition flood_exit_world :: world where
  "flood_exit_world =
     example_world (\<lambda>_ _ _ _. exits_with 1000 1 flood [])
       [''/home/u/big.py'' \<mapsto> source_file ''print(1)'']"

definition flood_late_exit_world :: world where
  "flood_late_exit_world =
     example_world (\<lambda>_ _ _ _. exits_with 30000000000 1 flood [])
       [''/home/u/big.py'' \<mapsto> source_file ''print(1)'']"

text \<open>
  An interpreter that never exits and writes nothing, one that exits with status 3 and a
  message on standard error, and a C compiler that never exits.
\<close>

definition loop_world :: world where
  "loop_world =
     example_world (\<lambda>_ _ _ _. never_exits [])
       [''/home/u/loop.py'' \<mapsto> source_file ''while True: pass'']"

definition failing_world :: world where
  "failing_world =
     example_world (\<lambda>_ _ _ _. exits_with 2000 3 ''partial'' ''Traceback'')
       [''/home/u/fail.py'' \<mapsto> source_file ''raise SystemExit(3)'']"

definition hang_cc_world :: world where
  "hang_cc_world =
     example_world (\<lambda>name _ _ _. if name = ''gcc'' then never_exits [] else exits_with 1000 0 [] [])
       [''/home/u/loop.c'' \<mapsto> source_file ''int main(){return 0;}'']"

text \<open>
  Two Go sources whose names differ in the case of the extension, and a compiler that
  exits with status 0 and writes nothing.
\<close>

definition case_world :: world where
  "case_world =
     example_world (\<lambda>_ _ _ _. exits_with 5000 0 [] [])
       [''/home/u/main.go'' \<mapsto> source_file ''package main'',
        ''/home/u/main.GO'' \<mapsto> source_file ''package main'']"

section \<open>Properties\<close>

subsection \<open>Basic facts\<close>

lemma run_command_unsupported:
  "ext \<notin> {''.py'', ''.js'', ''.sh'', ''.c'', ''.cpp'', ''.go''} \<Longrightarrow> run_command ext x = None"
  by (simp add: run_command_def)

lemma unsupported_not_compiled:
  "ext \<notin> {''.py'', ''.js'', ''.sh'', ''.c'', ''.cpp'', ''.go''} \<Longrightarrow> \<not> needs_compile ext"
  by (auto simp: needs_compile_def)

lemma chmod_frame [simp]:
  "trace (chmod path mode w) = trace w"
  "next_pid (chmod path mode w) = next_pid w"
  "clock (chmod path mode w) = clock w"
  "unwritable (chmod path mode w) = unwritable w"
  "programs (chmod path mode w) = programs w"
  by (simp_all add: chmod_def split: option.splits)

lemma create_trunc_frame [simp]:
  "trace (create_trunc path mode w) = trace w"
  "next_pid (create_trunc path mode w) = next_pid w"
  "clock (create_trunc path mode w) = clock w"
  "unwritable (create_trunc path mode w) = unwritable w"
  "programs (create_trunc path mode w) = programs w"
  by (simp_all add: create_trunc_def)

lemma write_all_frame [simp]:
  "trace (write_all path bytes w) = trace w"
  "next_pid (write_all path bytes w) = next_pid w"
  "clock (write_all path bytes w) = clock w"
  "unwritable (write_all path bytes w) = unwritable w"
  "programs (write_all path bytes w) = programs w"
  by (simp_all add: write_all_def split: option.splits)

lemma Remove_frame [simp]:
  "trace (Remove path w) = trace w"
  "next_pid (Remove path w) = next_pid w"
  "clock (Remove path w) = clock w"
  "unwritable (Remove path w) = unwritable w"
  "programs (Remove path w) = programs w"
  "files (Remove path w) path = None"
  by (simp_all add: Remove_def)

lemma copyFile_trace: "trace (snd (copyFile src dst w)) = trace w"
  by (simp add: copyFile_def Let_def)

lemma copyFile_next_pid: "next_pid (snd (copyFile src dst w)) = next_pid w"
  by (simp add: copyFile_def Let_def)

lemma copyFile_ok:
  "files w src \<noteq> None \<Longrightarrow> \<not> unwritable w dst \<Longrightarrow> fst (copyFile src dst w) = None"
  by (simp add: copyFile_def Let_def)

lemma NewCompiler_configs_None:
  "ext \<notin> {''.py'', ''.js'', ''.sh'', ''.c'', ''.cpp'', ''.go''} \<Longrightarrow> configs (NewCompiler dir) ext = None"
  by (simp add: NewCompiler_def)

subsection \<open>Unsupported extensions\<close>

text \<open>
  C9. A file whose lower-cased extension is none of \<open>.py .js .sh .c .cpp .go\<close>:
  \<open>ExecuteFile\<close> returns an error and the trace and the process table are as before, so
  no process has been started; when the file exists and can be staged the error is the
  one for an unsupported file type. \<open>Compile\<close> returns that error as well and leaves the
  world as it is.
\<close>

theorem unsupported_extension_starts_no_process:
  assumes "ToLower (Ext filePath) \<notin> {''.py'', ''.js'', ''.sh'', ''.c'', ''.cpp'', ''.go''}"
  shows "(\<exists>err w'. ExecuteFile e filePath w = Returns (Inl err, w')
           \<and> trace w' = trace w \<and> next_pid w' = next_pid w
           \<and> (files w filePath \<noteq> None \<and> \<not> unwritable w (Join (workDir e) (Base filePath))
                \<longrightarrow> err = UnsupportedFileType (ToLower (Ext filePath))))
       \<and> Compile (NewCompiler dir) filePath w
           = Returns (Inl (UnsupportedFileType (ToLower (Ext filePath))), w)"
proof -
  let ?ext = "ToLower (Ext filePath)"
  let ?tmp = "Join (workDir e) (Base filePath)"
  have nc: "\<not> needs_compile ?ext" and rc: "\<And>x. run_command ?ext x = None"
    using assms by (simp_all add: unsupported_not_compiled run_command_unsupported)
  have exec: "\<exists>err w'. ExecuteFile e filePath w = Returns (Inl err, w')
           \<and> trace w' = trace w \<and> next_pid w' = next_pid w
           \<and> (files w filePath \<noteq> None \<and> \<not> unwritable w ?tmp
                \<longrightarrow> err = UnsupportedFileType ?ext)"
  proof (cases "files w filePath = None")
    case True
    then show ?thesis by (simp add: ExecuteFile_def)
  next
    case False
    obtain res w1 where c: "copyFile filePath ?tmp w = (res, w1)"
      by (cases "copyFile filePath ?tmp w")
    have t: "trace w1 = trace w" "next_pid w1 = next_pid w"
      using copyFile_trace [of filePath ?tmp w] copyFile_next_pid [of filePath ?tmp w] c by simp_all
    show ?thesis
    proof (cases res)
      case None
      have "ExecuteFile e filePath w = Returns (Inl (UnsupportedFileType ?ext), w1)"
        using False c None nc rc by (simp add: ExecuteFile_def Let_def run_staged_def)
      then show ?thesis
        using t by simp
    next
      case (Some err)
      have eq: "ExecuteFile e filePath w = Returns (Inl (CopyFailed err), w1)"
        using False c Some by (simp add: ExecuteFile_def Let_def)
      have "unwritable w ?tmp"
        using copyFile_ok [of w filePath ?tmp] False c Some by auto
      then show ?thesis
        using eq t by simp
    qed
  qed
  have comp: "Compile (NewCompiler dir) filePath w
           = Returns (Inl (UnsupportedFileType ?ext), w)"
    using NewCompiler_configs_None [OF assms] by (simp add: Compile_def Let_def)
  show ?thesis
    using exec comp by blast
qed

lemmas path_simps = Ext_def ToLower_def to_lower_char_def Base_def Join_def

lemmas world_simps = example_world_def exits_with_def never_exits_def source_file_def

theorem unsupported_extension_starts_no_process_witness:
  "ToLower (Ext ''/home/u/prog.xyz'') \<notin> {''.py'', ''.js'', ''.sh'', ''.c'', ''.cpp'', ''.go''}
   \<and> files xyz_world ''/home/u/prog.xyz'' \<noteq> None
   \<and> \<not> unwritable xyz_world (Join (workDir (NewExecutor WORK_DIR)) (Base ''/home/u/prog.xyz''))
   \<and> (\<exists>w'. ExecuteFile (NewExecutor WORK_DIR) ''/home/u/prog.xyz'' xyz_world
               = Returns (Inl (UnsupportedFileType ''.xyz''), w')
             \<and> trace w' = [] \<and> next_pid w' = 100)
   \<and> Compile (NewCompiler WORK_DIR) ''/home/u/prog.xyz'' xyz_world
        = Returns (Inl (UnsupportedFileType ''.xyz''), xyz_world)"
proof -
  have x: "ToLower (Ext ''/home/u/prog.xyz'') = ''.xyz''"
    by (simp add: path_simps)
  have h: "ToLower (Ext ''/home/u/prog.xyz'') \<notin> {''.py'', ''.js'', ''.sh'', ''.c'', ''.cpp'', ''.go''}"
    by (simp add: x)
  have f: "files xyz_world ''/home/u/prog.xyz'' \<noteq> None"
    by (simp add: xyz_world_def world_simps)
  have u: "\<not> unwritable xyz_world (Join (workDir (NewExecutor WORK_DIR)) (Base ''/home/u/prog.xyz''))"
    by (simp add: xyz_world_def world_simps)
  have t: "trace xyz_world = []" "next_pid xyz_world = 100"
    by (simp_all add: xyz_world_def world_simps)
  note inst = unsupported_extension_starts_no_process
    [OF h, of "NewExecutor WORK_DIR" xyz_world WORK_DIR]
  then obtain err w' where
    r: "ExecuteFile (NewExecutor WORK_DIR) ''/home/u/prog.xyz'' xyz_world = Returns (Inl err, w')"
      "trace w' = trace xyz_world" "next_pid w' = next_pid xyz_world"
      "err = UnsupportedFileType (ToLower (Ext ''/home/u/prog.xyz''))"
    using f u by blast
  have "\<exists>w'. ExecuteFile (NewExecutor WORK_DIR) ''/home/u/prog.xyz'' xyz_world
               = Returns (Inl (UnsupportedFileType ''.xyz''), w')
             \<and> trace w' = [] \<and> next_pid w' = 100"
    using r t x by auto
  then show ?thesis
    using h f u inst x by simp
qed

subsection \<open>The compile step\<close>

lemma HasSuffix_refl: "HasSuffix ys ys"
  by (simp add: HasSuffix_def)

lemma HasSuffix_append_Cons2: "HasSuffix (xs @ a # b # ys) ys"
  by (simp add: HasSuffix_def)


lemma compile_outcome_trace:
  "compile_outcome config outputFile res w = (r, w') \<Longrightarrow> trace w' = trace w"
  by (auto simp: compile_outcome_def split: waited.splits if_splits)

lemma cmd_Run_trace:
  assumes "cmd_Run name args dir w = Returns (res, w')"
  shows "trace w' = trace w \<or> trace w' = trace w @ [Spawn (next_pid w) name args False]"
  using assms
  by (auto simp: cmd_Run_def Let_def spawn_def elapse_def split: option.splits)

lemma Compile_trace:
  assumes "Compile c sourcePath w = Returns (res, w')"
  shows "trace w' = trace w
       \<or> (\<exists>config. configs c (ToLower (Ext sourcePath)) = Some config
            \<and> trace w' = trace w @
                 [Spawn (next_pid w) (Command config)
                    (compile_args config (output_file sourcePath (ToLower (Ext sourcePath))) sourcePath)
                    False])"
proof (cases "configs c (ToLower (Ext sourcePath))")
  case None
  then show ?thesis
    using assms by (simp add: Compile_def Let_def)
next
  case (Some config)
  let ?out = "output_file sourcePath (ToLower (Ext sourcePath))"
  let ?args = "compile_args config ?out sourcePath"
  from assms Some obtain wres w1 where
    run: "cmd_Run (Command config) ?args (cworkDir c) w = Returns (wres, w1)"
    and out: "w' = snd (compile_outcome config ?out wres w1)"
    by (auto simp: Compile_def Let_def split: run.splits prod.splits)
  have "trace w' = trace w1"
    using out compile_outcome_trace [of config ?out wres w1] by (cases "compile_outcome config ?out wres w1") simp
  then show ?thesis
    using cmd_Run_trace [OF run] Some by auto
qed


lemmas exec_simps =
  ExecuteFile_def Compile_def run_staged_def race_def cmd_Run_def compile_outcome_def
  compile_args_def output_file_def TrimSuffix_def HasSuffix_def copyFile_def create_trunc_def
  write_all_def read_all_def chmod_def spawn_def elapse_def kill_def exits_first_def
  NewExecutor_def NewCompiler_def WORK_DIR_def TIMEOUT_SECONDS_def MAX_OUTPUT_SIZE_def
  needs_compile_def run_command_def timeout_of_def seconds_def exit_code_of_def Let_def


lemma race_trace:
  assumes "race name args dir setpgid deadline whole_group w = (res, w')"
  shows "case res of
           NoStart m \<Rightarrow> trace w' = trace w
         | Done code out err t \<Rightarrow> trace w' = trace w @ [Spawn (next_pid w) name args setpgid]
         | Expired out err t \<Rightarrow>
             trace w' = trace w @ [Spawn (next_pid w) name args setpgid,
                                   if whole_group then KillGroup (next_pid w)
                                   else KillProcess (next_pid w)]"
  using assms
  by (auto simp: race_def Let_def spawn_def elapse_def kill_def split: option.splits if_splits)

lemma run_staged_trace:
  "\<exists>evs. trace (snd (run_staged e ext executablePath compileResult w)) = trace w @ evs"
proof (cases "run_command ext executablePath")
  case None
  then show ?thesis by (simp add: run_staged_def Let_def)
next
  case (Some cmd)
  obtain name args where cmd: "cmd = (name, args)"
    by (cases cmd)
  obtain res w' where
    r: "race name args (workDir e) True (seconds (timeout_of (timeouts e) ext)) True w = (res, w')"
    by (cases "race name args (workDir e) True (seconds (timeout_of (timeouts e) ext)) True w")
  have "\<exists>evs. trace w' = trace w @ evs"
    using race_trace [OF r] by (cases res) auto
  moreover have "snd (run_staged e ext executablePath compileResult w) = w'"
    using Some cmd r by (cases res) (simp_all add: run_staged_def Let_def)
  ultimately show ?thesis by simp
qed

lemma ExecuteFile_staged:
  assumes "files w filePath \<noteq> None"
    and "copyFile filePath (Join (workDir e) (Base filePath)) w = (None, w1)"
  shows "ExecuteFile e filePath w =
           (if needs_compile (ToLower (Ext filePath)) then
              (case Compile (compiler e) (Join (workDir e) (Base filePath)) w1 of
                 Hangs \<Rightarrow> Hangs
               | Returns (Inl err, w2) \<Rightarrow> Returns (Inl (CompilationFailed err), w2)
               | Returns (Inr compileResult, w2) \<Rightarrow>
                   if \<not> cSuccess compileResult then
                     Returns (Inr \<lparr>Success = False, Output = [],
                                   Error = cError compileResult,
                                   ExitCode = 0, ExecuteTime = 0,
                                   CompileTime = cCompileTime compileResult,
                                   Compiled = True, Language = ToLower (Ext filePath)\<rparr>, w2)
                   else
                     Returns (run_staged e (ToLower (Ext filePath)) (cOutputFile compileResult)
                                (Some compileResult) w2))
            else Returns (run_staged e (ToLower (Ext filePath))
                            (Join (workDir e) (Base filePath)) None w1))"
proof -
  from assms(1) obtain f where "files w filePath = Some f"
    by blast
  then show ?thesis
    using assms(2) by (simp add: ExecuteFile_def Let_def)
qed

text \<open>
  C7. A file of a compiled language that has been staged, and a compile step that has
  returned a result in world \<open>w2\<close>. Whatever \<open>ExecuteFile\<close> does afterwards comes
  after the events of the compile step in the trace. When the compile step has failed,
  nothing comes after them: the world returned is \<open>w2\<close>, whose trace is the old one
  with at most the compiler process added; the result holds the error text of the
  compile step, which ends with what the compiler wrote to standard error when it
  exited with a status other than 0; the execution time is 0 and the output is empty.
\<close>

theorem compile_failure_skips_run:
  assumes "needs_compile (ToLower (Ext filePath))"
    and "files w filePath \<noteq> None"
    and "tempFile = Join (workDir e) (Base filePath)"
    and "copyFile filePath tempFile w = (None, w1)"
    and "Compile (compiler e) tempFile w1 = Returns (Inr cr, w2)"
  shows "\<exists>res w3 evs. ExecuteFile e filePath w = Returns (res, w3) \<and> trace w3 = trace w2 @ evs
           \<and> (\<not> cSuccess cr \<longrightarrow>
                res = Inr \<lparr>Success = False, Output = [], Error = cError cr, ExitCode = 0,
                           ExecuteTime = 0, CompileTime = cCompileTime cr, Compiled = True,
                           Language = ToLower (Ext filePath)\<rparr>
                \<and> w3 = w2 \<and> evs = []
                \<and> (trace w2 = trace w
                     \<or> (\<exists>config. configs (compiler e) (ToLower (Ext tempFile)) = Some config
                          \<and> trace w2 = trace w @
                               [Spawn (next_pid w) (Command config)
                                  (compile_args config
                                     (output_file tempFile (ToLower (Ext tempFile))) tempFile)
                                  False]))
                \<and> (\<forall>config p t.
                      configs (compiler e) (ToLower (Ext tempFile)) = Some config
                      \<and> p = programs w1 (Command config)
                              (compile_args config
                                 (output_file tempFile (ToLower (Ext tempFile))) tempFile)
                              (cworkDir (compiler e)) (files w1)
                      \<and> start_error p = None \<and> lifetime p = Some t \<and> status p \<noteq> 0
                      \<longrightarrow> HasSuffix (cError cr) (err_by p t)))"
proof (cases "cSuccess cr")
  case True
  let ?ext = "ToLower (Ext filePath)"
  have eq: "ExecuteFile e filePath w
              = Returns (run_staged e ?ext (cOutputFile cr) (Some cr) w2)"
    using assms True ExecuteFile_staged [of w filePath e w1] by simp
  obtain evs where "trace (snd (run_staged e ?ext (cOutputFile cr) (Some cr) w2)) = trace w2 @ evs"
    using run_staged_trace by blast
  then show ?thesis
    using eq True by (cases "run_staged e ?ext (cOutputFile cr) (Some cr) w2") auto
next
  case False
  let ?ext = "ToLower (Ext filePath)"
  have eq: "ExecuteFile e filePath w
              = Returns (Inr \<lparr>Success = False, Output = [], Error = cError cr, ExitCode = 0,
                           ExecuteTime = 0, CompileTime = cCompileTime cr, Compiled = True,
                           Language = ?ext\<rparr>, w2)"
    using assms False ExecuteFile_staged [of w filePath e w1] by simp
  have w1: "trace w1 = trace w" "next_pid w1 = next_pid w"
    using copyFile_trace [of filePath tempFile w] copyFile_next_pid [of filePath tempFile w] assms(4)
    by simp_all
  have tr: "trace w2 = trace w
             \<or> (\<exists>config. configs (compiler e) (ToLower (Ext tempFile)) = Some config
                  \<and> trace w2 = trace w @
                       [Spawn (next_pid w) (Command config)
                          (compile_args config
                             (output_file tempFile (ToLower (Ext tempFile))) tempFile)
                          False])"
    using Compile_trace [OF assms(5)] w1 by simp
  have diag: "HasSuffix (cError cr) (err_by p t)"
    if "configs (compiler e) (ToLower (Ext tempFile)) = Some config"
      and "p = programs w1 (Command config)
                 (compile_args config (output_file tempFile (ToLower (Ext tempFile))) tempFile)
                 (cworkDir (compiler e)) (files w1)"
      and "start_error p = None" and "lifetime p = Some t" and "status p \<noteq> 0"
    for config p t
    using assms(5) that
    by (auto simp: Compile_def Let_def cmd_Run_def compile_outcome_def HasSuffix_append_Cons2
          HasSuffix_refl split: option.splits)
  show ?thesis
    using eq tr diag False by auto
qed

theorem compile_failure_skips_run_witness:
  "needs_compile (ToLower (Ext ''/home/u/prog.c''))
   \<and> files bad_cc_world ''/home/u/prog.c'' \<noteq> None
   \<and> (\<exists>w'. ExecuteFile (NewExecutor WORK_DIR) ''/home/u/prog.c'' bad_cc_world
               = Returns (Inr \<lparr>Success = False, Output = [],
                               Error = msg_c @ '': '' @ ''prog.c:1:1: error: expected identifier'',
                               ExitCode = 0, ExecuteTime = 0, CompileTime = 3000,
                               Compiled = True, Language = ''.c''\<rparr>, w')
          \<and> trace w' = [Spawn 100 ''gcc''
                            [''-Wall'', ''-O2'', ''-o'', ''/tmp/smollm-sandbox/prog.out'',
                             ''/tmp/smollm-sandbox/prog.c''] False])"
proof -
  let ?E = "NewExecutor WORK_DIR"
  let ?P = "''/home/u/prog.c''"
  let ?T = "Join (workDir ?E) (Base ?P)"
  let ?w1 = "snd (copyFile ?P ?T bad_cc_world)"
  have ext: "ToLower (Ext ?P) = ''.c''"
    by (simp add: path_simps)
  have tmp: "?T = ''/tmp/smollm-sandbox/prog.c''"
    by (simp add: path_simps NewExecutor_def WORK_DIR_def)
  have ext': "ToLower (Ext ''/tmp/smollm-sandbox/prog.c'') = ''.c''"
    by (simp add: path_simps)
  have h1: "needs_compile (ToLower (Ext ?P))"
    by (simp add: ext needs_compile_def)
  have h2: "files bad_cc_world ?P \<noteq> None"
    by (simp add: bad_cc_world_def world_simps)
  have "fst (copyFile ?P ?T bad_cc_world) = None"
    by (rule copyFile_ok [OF h2]) (simp add: bad_cc_world_def world_simps)
  then have h4: "copyFile ?P ?T bad_cc_world = (None, ?w1)"
    by (simp add: prod_eq_iff)
  have "\<exists>cr w2. Compile (compiler ?E) ?T ?w1 = Returns (Inr cr, w2)
          \<and> \<not> cSuccess cr
          \<and> cError cr = msg_c @ '': '' @ ''prog.c:1:1: error: expected identifier''
          \<and> cCompileTime cr = 3000
          \<and> trace w2 = [Spawn 100 ''gcc''
                            [''-Wall'', ''-O2'', ''-o'', ''/tmp/smollm-sandbox/prog.out'',
                             ''/tmp/smollm-sandbox/prog.c''] False]"
    unfolding tmp
    by (simp add: ext' exec_simps bad_cc_world_def world_simps)
  then obtain cr w2 where
    c: "Compile (compiler ?E) ?T ?w1 = Returns (Inr cr, w2)"
      "\<not> cSuccess cr"
      "cError cr = msg_c @ '': '' @ ''prog.c:1:1: error: expected identifier''"
      "cCompileTime cr = 3000"
      "trace w2 = [Spawn 100 ''gcc''
                     [''-Wall'', ''-O2'', ''-o'', ''/tmp/smollm-sandbox/prog.out'',
                      ''/tmp/smollm-sandbox/prog.c''] False]"
    by blast
  from compile_failure_skips_run [OF h1 h2 refl h4 c(1)] c(2)
  have "ExecuteFile ?E ?P bad_cc_world
          = Returns (Inr \<lparr>Success = False, Output = [], Error = cError cr, ExitCode = 0,
                          ExecuteTime = 0, CompileTime = cCompileTime cr, Compiled = True,
                          Language = ToLower (Ext ?P)\<rparr>, w2)"
    by auto
  then show ?thesis
    using h1 h2 c ext by simp
qed

subsection \<open>Temporary files of \<open>ExecuteCode\<close>\<close>

lemma digit_cases:
  "k < 10 \<Longrightarrow> k = 0 \<or> k = 1 \<or> k = 2 \<or> k = 3 \<or> k = 4 \<or> k = 5 \<or> k = 6 \<or> k = 7 \<or> k = 8 \<or> k = (9::nat)"
  by arith

lemma digit_val_nth: "k < 10 \<Longrightarrow> digit_val (''0123456789'' ! k) = k"
proof -
  assume "k < 10"
  then consider "k = 0" | "k = 1" | "k = 2" | "k = 3" | "k = 4" | "k = 5" | "k = 6" | "k = 7"
    | "k = 8" | "k = 9"
    using digit_cases [of k] by blast
  then show ?thesis
    by cases (simp_all add: digit_val_def)
qed

lemma digit_in: "k < 10 \<Longrightarrow> ''0123456789'' ! k \<in> set ''0123456789''"
  by (rule nth_mem) simp

lemma dec_val_dec: "dec_val (dec n) = n"
proof (induction n rule: dec.induct)
  case (1 n)
  show ?case
  proof (cases "n < 10")
    case True
    then show ?thesis
      by (simp add: dec.simps [of n] dec_val_def digit_val_nth)
  next
    case False
    then have "dec_val (dec (n div 10)) = n div 10"
      using "1" by simp
    then show ?thesis
      using False by (simp add: dec.simps [of n] dec_val_def digit_val_nth)
  qed
qed

lemma dec_inj:
  assumes "dec n = dec m"
  shows "n = m"
proof -
  have "dec_val (dec n) = dec_val (dec m)"
    using assms by (rule arg_cong)
  then show ?thesis
    by (simp only: dec_val_dec)
qed

lemma dec_digits: "set (dec n) \<subseteq> set ''0123456789''"
proof (induction n rule: dec.induct)
  case (1 n)
  show ?case
  proof (cases "n < 10")
    case True
    then show ?thesis
      using digit_in [of n] by (simp add: dec.simps [of n])
  next
    case False
    then have "set (dec (n div 10)) \<subseteq> set ''0123456789''"
      using "1" by simp
    moreover have "''0123456789'' ! (n mod 10) \<in> set ''0123456789''"
      by (rule digit_in) simp
    ultimately show ?thesis
      using False by (simp add: dec.simps [of n])
  qed
qed

lemma dec_nonempty: "dec n \<noteq> []"
  by (simp add: dec.simps [of n])

lemma dec_no_special:
  "CHR ''/'' \<notin> set (dec n)" "CHR ''.'' \<notin> set (dec n)" "CHR ''-'' \<notin> set (dec n)"
  using dec_digits [of n] by auto

lemma sprint_int_inj: "sprint_int i = sprint_int j \<Longrightarrow> i = j"
proof -
  assume a: "sprint_int i = sprint_int j"
  have neg: "False" if "sprint_int x = sprint_int y" "x < 0" "\<not> y < 0" for x y
  proof -
    from that have "CHR ''-'' # dec (nat (- x)) = dec (nat y)"
      by (simp add: sprint_int_def)
    then have "CHR ''-'' \<in> set (dec (nat y))"
      by (metis list.set_intros(1))
    then show False
      using dec_no_special(3) by simp
  qed
  show "i = j"
  proof (cases "i < 0")
    case True
    show ?thesis
    proof (cases "j < 0")
      case True
      with \<open>i < 0\<close> a have "dec (nat (- i)) = dec (nat (- j))"
        by (simp add: sprint_int_def)
      then have "nat (- i) = nat (- j)"
        by (rule dec_inj)
      with True \<open>i < 0\<close> show ?thesis by simp
    next
      case False
      with neg [OF a True] show ?thesis by simp
    qed
  next
    case False
    show ?thesis
    proof (cases "j < 0")
      case True
      with neg [OF a [symmetric] True False] show ?thesis by simp
    next
      case jf: False
      with False a have "dec (nat i) = dec (nat j)"
        by (simp add: sprint_int_def)
      then have "nat i = nat j"
        by (rule dec_inj)
      with False jf show ?thesis by simp
    qed
  qed
qed

lemma sprint_int_no_special:
  "CHR ''/'' \<notin> set (sprint_int i)" "CHR ''.'' \<notin> set (sprint_int i)"
  using dec_no_special by (simp_all add: sprint_int_def)

lemma sprint_int_nonempty: "sprint_int i \<noteq> []"
  by (simp add: sprint_int_def dec_nonempty)

lemma split_at_first:
  assumes "x \<notin> set as" and "x \<notin> set bs" and "as @ x # r = bs @ x # s"
  shows "as = bs \<and> r = s"
proof -
  have "takeWhile (\<lambda>c. c \<noteq> x) (as @ x # r) = as" "takeWhile (\<lambda>c. c \<noteq> x) (bs @ x # s) = bs"
    using assms(1,2) by (auto simp: takeWhile_tail)
  with assms(3) have "as = bs" by simp
  with assms(3) show ?thesis by simp
qed

lemma language_ext_dot: "language_ext language = Some ext \<Longrightarrow> \<exists>r. ext = CHR ''.'' # r \<and> CHR ''/'' \<notin> set r"
  unfolding language_ext_def Let_def by (auto split: if_splits)

lemma temp_name_inj:
  assumes "temp_name t1 (CHR ''.'' # r1) = temp_name t2 (CHR ''.'' # r2)"
  shows "t1 = t2 \<and> r1 = r2"
proof -
  from assms have "sprint_int t1 @ CHR ''.'' # r1 = sprint_int t2 @ CHR ''.'' # r2"
    by (simp add: temp_name_def)
  then have "sprint_int t1 = sprint_int t2 \<and> r1 = r2"
    by (rule split_at_first [OF sprint_int_no_special(2) sprint_int_no_special(2)])
  then show ?thesis
    using sprint_int_inj [of t1 t2] by simp
qed

lemma Base_Join:
  assumes "CHR ''/'' \<notin> set name" and "name \<noteq> []"
  shows "Base (Join dir name) = name"
proof -
  have nl: "last name \<noteq> CHR ''/''"
    using assms by (metis last_in_set)
  obtain c cs where rn: "rev name = c # cs" and c: "c \<noteq> CHR ''/''"
    using assms nl by (cases "rev name") (auto simp: last_rev)
  have tw: "takeWhile (\<lambda>c. c \<noteq> CHR ''/'') (rev name @ rest) = rev name" if "rest = [] \<or> hd rest = CHR ''/''" for rest
    using that assms(1) by (cases rest) (auto simp: takeWhile_tail)
  show ?thesis
  proof (cases "dir = []")
    case True
    then show ?thesis
      using assms rn c tw [of "[]"] by (simp add: Base_def Join_def Let_def)
  next
    case False
    have "takeWhile (\<lambda>c. c \<noteq> CHR ''/'') (rev name @ CHR ''/'' # rev dir) = rev name"
      using tw [of "CHR ''/'' # rev dir"] by simp
    then show ?thesis
      using False assms rn c by (simp add: Base_def Join_def Let_def)
  qed
qed

lemma copyFile_self:
  assumes "\<not> unwritable w p"
  shows "copyFile p p (snd (WriteFile p code m w))
           = (None, w\<lparr>files := (files w)(p \<mapsto> \<lparr>content = [], perm = 493\<rparr>)\<rparr>)"
  using assms
  by (simp add: copyFile_def WriteFile_def create_trunc_def write_all_def read_all_def chmod_def Let_def)

lemma temp_path_fixed:
  assumes "language_ext language = Some ext"
  shows "Join (workDir e) (Base (Join (workDir e) (temp_name t ext))) = Join (workDir e) (temp_name t ext)"
proof -
  from assms obtain r where r: "ext = CHR ''.'' # r" "CHR ''/'' \<notin> set r"
    using language_ext_dot by blast
  have "CHR ''/'' \<notin> set (temp_name t ext)"
    using r sprint_int_no_special(1) [of t] by (simp add: temp_name_def)
  moreover have "temp_name t ext \<noteq> []"
    by (simp add: temp_name_def)
  ultimately show ?thesis
    by (simp add: Base_Join)
qed

lemma ExecuteFile_after_WriteFile:
  assumes "\<not> unwritable w p" and "Join (workDir e) (Base p) = p"
  shows "ExecuteFile e p (snd (WriteFile p code m w))
           = ExecuteFile e p (snd (WriteFile p [] m w))"
proof -
  let ?s = "w\<lparr>files := (files w)(p \<mapsto> \<lparr>content = [], perm = 493\<rparr>)\<rparr>"
  have ex: "files (snd (WriteFile p c m w)) p \<noteq> None" for c
    using assms(1) by (simp add: WriteFile_def write_all_def create_trunc_def)
  have cp: "copyFile p (Join (workDir e) (Base p)) (snd (WriteFile p c m w)) = (None, ?s)" for c
    using copyFile_self [OF assms(1)] assms(2) by simp
  show ?thesis
    by (simp add: ExecuteFile_staged [OF ex cp])
qed

lemma ExecuteCode_ignores_code:
  "ExecuteCode e code language w = ExecuteCode e [] language w"
proof (cases "language_ext language")
  case None
  then show ?thesis by (simp add: ExecuteCode_def)
next
  case (Some ext)
  let ?p = "Join (workDir e) (temp_name (clock w) ext)"
  show ?thesis
  proof (cases "unwritable w ?p")
    case True
    then show ?thesis
      using Some by (simp add: ExecuteCode_def Let_def WriteFile_def)
  next
    case False
    have fst_ok: "fst (WriteFile ?p c 493 w) = None" for c
      using False by (simp add: WriteFile_def)
    have eq: "ExecuteFile e ?p (snd (WriteFile ?p code 493 w))
                = ExecuteFile e ?p (snd (WriteFile ?p [] 493 w))"
      using ExecuteFile_after_WriteFile [OF False temp_path_fixed [OF Some]] .
    have unf: "ExecuteCode e c language w =
                 (case ExecuteFile e ?p (snd (WriteFile ?p c 493 w)) of
                    Hangs \<Rightarrow> Hangs
                  | Returns (result, w2) \<Rightarrow> Returns (result, Remove ?p w2))" for c
      using Some fst_ok [of c]
      by (cases "WriteFile ?p c 493 w") (simp add: ExecuteCode_def Let_def)
    show ?thesis
      by (simp only: unf eq)
  qed
qed

lemma temp_name_example:
  "temp_name 1700000000000000000 ''.py'' = ''tmp_1700000000000000000.py''"
  by (simp add: temp_name_def sprint_int_def dec.simps)

lemma language_python: "language_ext ''python'' = Some ''.py''"
  by (simp add: language_ext_def ToLower_def to_lower_char_def)

lemma ext_tmp_py: "ToLower (Ext ''/tmp/smollm-sandbox/tmp_1700000000000000000.py'') = ''.py''"
  by (simp add: path_simps)

lemma base_tmp_py:
  "Base ''/tmp/smollm-sandbox/tmp_1700000000000000000.py'' = ''tmp_1700000000000000000.py''"
  by (simp add: path_simps)

text \<open>
  C4. \<open>ExecuteCode\<close> writes the code to a file of the working directory and hands
  that path to \<open>ExecuteFile\<close>, which stages it by \<open>copyFile\<close> onto the same path:
  the file is emptied before it is read. The result of \<open>ExecuteCode\<close> therefore does
  not depend on the code (lemma \<open>ExecuteCode_ignores_code\<close>). With an interpreter
  that prints \<open>42\<close> for the program \<open>print(42)\<close>, \<open>ExecuteCode\<close> of that
  program succeeds with an empty output, while \<open>ExecuteFile\<close> of a file with the same
  text outside the working directory prints \<open>42\<close>.
\<close>

theorem ExecuteCode_runs_an_empty_file:
  "(\<exists>w'. ExecuteCode (NewExecutor WORK_DIR) ''print(42)'' ''python'' py_world
            = Returns (Inr \<lparr>Success = True, Output = [], Error = [], ExitCode = 0,
                            ExecuteTime = 1000, CompileTime = 0, Compiled = False,
                            Language = ''.py''\<rparr>, w')
          \<and> trace w' = [Spawn 100 ''python3''
                            [''/tmp/smollm-sandbox/tmp_1700000000000000000.py''] True])
   \<and> (\<exists>w'. ExecuteFile (NewExecutor WORK_DIR) ''/home/u/p.py''
              (example_world toy_python [''/home/u/p.py'' \<mapsto> source_file ''print(42)''])
            = Returns (Inr \<lparr>Success = True, Output = ''42'' @ [CHR 0x0A], Error = [],
                            ExitCode = 0, ExecuteTime = 1000, CompileTime = 0,
                            Compiled = False, Language = ''.py''\<rparr>, w'))"
proof -
  have ext2: "ToLower (Ext ''/home/u/p.py'') = ''.py''"
    by (simp add: path_simps)
  have base2: "Join ''/tmp/smollm-sandbox'' (Base ''/home/u/p.py'') = ''/tmp/smollm-sandbox/p.py''"
    by (simp add: path_simps)
  have a: "\<exists>w'. ExecuteCode (NewExecutor WORK_DIR) ''print(42)'' ''python'' py_world
            = Returns (Inr \<lparr>Success = True, Output = [], Error = [], ExitCode = 0,
                            ExecuteTime = 1000, CompileTime = 0, Compiled = False,
                            Language = ''.py''\<rparr>, w')
          \<and> trace w' = [Spawn 100 ''python3''
                            [''/tmp/smollm-sandbox/tmp_1700000000000000000.py''] True]"
    by (simp add: ExecuteCode_def language_python py_world_def example_world_def
          temp_name_example WORK_DIR_def NewExecutor_def WriteFile_def Join_def
          ExecuteFile_def ext_tmp_py base_tmp_py
          copyFile_def create_trunc_def write_all_def read_all_def chmod_def
          needs_compile_def run_staged_def run_command_def timeout_of_def TIMEOUT_SECONDS_def
          MAX_OUTPUT_SIZE_def seconds_def race_def toy_python_def exits_with_def exits_first_def
          spawn_def elapse_def exit_code_of_def Remove_def Let_def)
  have b: "\<exists>w'. ExecuteFile (NewExecutor WORK_DIR) ''/home/u/p.py''
              (example_world toy_python [''/home/u/p.py'' \<mapsto> source_file ''print(42)''])
            = Returns (Inr \<lparr>Success = True, Output = ''42'' @ [CHR 0x0A], Error = [],
                            ExitCode = 0, ExecuteTime = 1000, CompileTime = 0,
                            Compiled = False, Language = ''.py''\<rparr>, w')"
    by (simp add: example_world_def source_file_def WORK_DIR_def NewExecutor_def
          ExecuteFile_def ext2 base2
          copyFile_def create_trunc_def write_all_def read_all_def chmod_def
          needs_compile_def run_staged_def run_command_def timeout_of_def TIMEOUT_SECONDS_def
          MAX_OUTPUT_SIZE_def seconds_def race_def toy_python_def exits_with_def exits_first_def
          spawn_def elapse_def exit_code_of_def Let_def)
  show ?thesis
    using a b by blast
qed

lemma Compile_returns_iff:
  "(\<exists>x. Compile c sourcePath w = Returns x) = compiler_ends c sourcePath w"
  by (auto simp: Compile_def compiler_ends_def cmd_Run_def Let_def
        split: option.splits prod.splits)

lemma ExecuteFile_returns:
  assumes "needs_compile (ToLower (Ext filePath))
             \<longrightarrow> compiler_ends (compiler e) (Join (workDir e) (Base filePath))
                   (snd (copyFile filePath (Join (workDir e) (Base filePath)) w))"
  shows "\<exists>x. ExecuteFile e filePath w = Returns x"
proof (cases "files w filePath = None")
  case True
  then show ?thesis by (simp add: ExecuteFile_def)
next
  case False
  let ?tmp = "Join (workDir e) (Base filePath)"
  obtain res w1 where c: "copyFile filePath ?tmp w = (res, w1)"
    by (cases "copyFile filePath ?tmp w")
  from False obtain f where f: "files w filePath = Some f"
    by blast
  show ?thesis
  proof (cases res)
    case (Some err)
    then show ?thesis
      using f c by (simp add: ExecuteFile_def Let_def)
  next
    case None
    show ?thesis
    proof (cases "needs_compile (ToLower (Ext filePath))")
      case False
      then show ?thesis
        using ExecuteFile_staged [OF \<open>files w filePath \<noteq> None\<close> c [unfolded None]] by simp
    next
      case True
      with assms c have "compiler_ends (compiler e) ?tmp w1"
        by simp
      then obtain x where x: "Compile (compiler e) ?tmp w1 = Returns x"
        using Compile_returns_iff by blast
      show ?thesis
        using ExecuteFile_staged [OF \<open>files w filePath \<noteq> None\<close> c [unfolded None]] True x
        by (auto split: prod.splits sum.splits)
    qed
  qed
qed

lemma ExecuteFile_hangs:
  assumes "files w filePath \<noteq> None"
    and "copyFile filePath (Join (workDir e) (Base filePath)) w = (None, w1)"
    and "needs_compile (ToLower (Ext filePath))"
    and "\<not> compiler_ends (compiler e) (Join (workDir e) (Base filePath)) w1"
  shows "ExecuteFile e filePath w = Hangs"
proof -
  have "Compile (compiler e) (Join (workDir e) (Base filePath)) w1 = Hangs"
    using assms(4) Compile_returns_iff [of "compiler e" "Join (workDir e) (Base filePath)" w1]
    by (cases "Compile (compiler e) (Join (workDir e) (Base filePath)) w1") auto
  then show ?thesis
    using ExecuteFile_staged [OF assms(1,2)] assms(3) by simp
qed

lemma ext_scan_append:
  "CHR ''.'' \<notin> set ys \<Longrightarrow> CHR ''/'' \<notin> set ys
     \<Longrightarrow> ext_scan (ys @ CHR ''.'' # rest) acc = CHR ''.'' # rev ys @ acc"
  by (induction ys arbitrary: acc) auto

lemma Ext_append:
  assumes "CHR ''.'' \<notin> set r" and "CHR ''/'' \<notin> set r"
  shows "Ext (xs @ CHR ''.'' # r) = CHR ''.'' # r"
  using ext_scan_append [of "rev r" "rev xs" "[]"] assms by (simp add: Ext_def)

lemma language_ext_cases:
  "language_ext language = Some ext
     \<Longrightarrow> ext \<in> {''.py'', ''.js'', ''.go'', ''.c'', ''.cpp'', ''.sh''}"
  unfolding language_ext_def Let_def by (auto split: if_splits)

lemma Ext_temp_path:
  assumes "language_ext language = Some ext"
  shows "ToLower (Ext (Join dir (temp_name t ext))) = ext"
proof -
  have low: "ToLower ext = ext"
    using language_ext_cases [OF assms] by (auto simp: ToLower_def to_lower_char_def)
  obtain r where r: "ext = CHR ''.'' # r" "CHR ''.'' \<notin> set r" "CHR ''/'' \<notin> set r"
    using language_ext_cases [OF assms] by auto
  have "Join dir (temp_name t ext)
          = (if dir = [] then [] else dir @ ''/'') @ ''tmp_'' @ sprint_int t @ CHR ''.'' # r"
    by (simp add: Join_def temp_name_def r(1))
  then have "Ext (Join dir (temp_name t ext))
          = Ext (((if dir = [] then [] else dir @ ''/'') @ ''tmp_'' @ sprint_int t) @ CHR ''.'' # r)"
    by simp
  also have "\<dots> = CHR ''.'' # r"
    using r(2,3) by (rule Ext_append)
  finally show ?thesis
    using low r(1) by simp
qed

lemma temp_name_example_c:
  "temp_name 1700000000000000000 ''.c'' = ''tmp_1700000000000000000.c''"
  by (simp add: temp_name_def sprint_int_def dec.simps)

lemma language_c: "language_ext ''c'' = Some ''.c''"
  by (simp add: language_ext_def ToLower_def to_lower_char_def)

lemma ext_tmp_c: "ToLower (Ext ''/tmp/smollm-sandbox/tmp_1700000000000000000.c'') = ''.c''"
  by (simp add: path_simps)

lemma base_tmp_c:
  "Base ''/tmp/smollm-sandbox/tmp_1700000000000000000.c'' = ''tmp_1700000000000000000.c''"
  by (simp add: path_simps)

lemmas code_simps =
  ExecuteCode_def WriteFile_def Remove_def temp_name_example temp_name_example_c
  language_python language_c ext_tmp_py base_tmp_py ext_tmp_c base_tmp_c Join_def
  ExecuteFile_def Compile_def run_staged_def race_def cmd_Run_def compile_outcome_def
  compile_args_def output_file_def TrimSuffix_def HasSuffix_def copyFile_def create_trunc_def
  write_all_def read_all_def chmod_def spawn_def elapse_def kill_def exits_first_def
  NewExecutor_def NewCompiler_def WORK_DIR_def TIMEOUT_SECONDS_def MAX_OUTPUT_SIZE_def
  needs_compile_def run_command_def timeout_of_def seconds_def exit_code_of_def Let_def

text \<open>
  C8, as stated, fails. \<open>ExecuteCode\<close> of a C program with a compiler that never exits
  does not return, so the temporary file is never removed. And the name of the file is
  made from the reading of the clock and the extension alone: two requests that read the
  same nanosecond, here in two different worlds, get the same name.
\<close>

theorem ExecuteCode_may_never_remove_the_file:
  "ExecuteCode (NewExecutor WORK_DIR) ''int main(){return 0;}'' ''c'' hang_cc_world = Hangs
   \<and> returned (ExecuteCode (NewExecutor WORK_DIR) ''int main(){return 0;}'' ''c'' hang_cc_world) = None
   \<and> Join (workDir (NewExecutor WORK_DIR)) (temp_name (clock py_world) ''.py'')
       = ''/tmp/smollm-sandbox/tmp_1700000000000000000.py''
   \<and> Join (workDir (NewExecutor WORK_DIR)) (temp_name (clock loop_world) ''.py'')
       = ''/tmp/smollm-sandbox/tmp_1700000000000000000.py''
   \<and> programs py_world \<noteq> programs loop_world"
proof -
  have a: "ExecuteCode (NewExecutor WORK_DIR) ''int main(){return 0;}'' ''c'' hang_cc_world = Hangs"
    by (simp add: code_simps hang_cc_world_def world_simps)
  have b: "Join (workDir (NewExecutor WORK_DIR)) (temp_name (clock py_world) ''.py'')
       = ''/tmp/smollm-sandbox/tmp_1700000000000000000.py''"
    and c: "Join (workDir (NewExecutor WORK_DIR)) (temp_name (clock loop_world) ''.py'')
       = ''/tmp/smollm-sandbox/tmp_1700000000000000000.py''"
    by (simp_all add: py_world_def loop_world_def example_world_def temp_name_example
          NewExecutor_def WORK_DIR_def Join_def)
  have "lifetime (programs py_world ''python3'' [] [] Map.empty)
          \<noteq> lifetime (programs loop_world ''python3'' [] [] Map.empty)"
    by (simp add: py_world_def loop_world_def example_world_def toy_python_def exits_with_def
          never_exits_def)
  then have d: "programs py_world \<noteq> programs loop_world"
    by auto
  show ?thesis
    using a b c d by (simp add: returned_def)
qed

text \<open>
  C8, amended. For a supported language and a temporary file that can be created,
  \<open>ExecuteCode\<close> writes the code to the file \<open>tmp_<clock><ext>\<close> of the working
  directory, where \<open>clock\<close> is the reading of the clock in nanoseconds and \<open>ext\<close>
  the extension of the language; two such names are equal exactly when the reading and
  the extension are. \<open>ExecuteFile\<close> is called on that path. When the language needs no
  compile step, or the wait for the compiler comes to an end, \<open>ExecuteFile\<close> returns,
  with a result or with an error, \<open>ExecuteCode\<close> returns the same, and the file is
  no longer there.
\<close>

theorem ExecuteCode_temp_file_is_removed:
  assumes "language_ext language = Some ext"
    and "filePath = Join (workDir e) (temp_name (clock w) ext)"
    and "\<not> unwritable w filePath"
    and "w1 = snd (WriteFile filePath code 493 w)"
    and "needs_compile ext \<longrightarrow>
           compiler_ends (compiler e) filePath (snd (copyFile filePath filePath w1))"
  shows "\<exists>result w2. ExecuteFile e filePath w1 = Returns (result, w2)
       \<and> ExecuteCode e code language w = Returns (result, Remove filePath w2)
       \<and> files (Remove filePath w2) filePath = None
       \<and> map_option content (files w1 filePath) = Some code
       \<and> Base filePath = temp_name (clock w) ext
       \<and> (\<forall>language' ext' t'. language_ext language' = Some ext'
              \<longrightarrow> (temp_name t' ext' = temp_name (clock w) ext) = (t' = clock w \<and> ext' = ext))"
proof -
  have ok: "fst (WriteFile filePath code 493 w) = None"
    using assms(3) by (simp add: WriteFile_def)
  have same: "Join (workDir e) (Base filePath) = filePath"
    unfolding assms(2) using assms(1) by (rule temp_path_fixed)
  have ext: "ToLower (Ext filePath) = ext"
    unfolding assms(2) using assms(1) by (rule Ext_temp_path)
  have "\<exists>x. ExecuteFile e filePath w1 = Returns x"
    by (rule ExecuteFile_returns) (use assms(5) in \<open>simp add: same ext\<close>)
  then obtain result w2 where ret: "ExecuteFile e filePath w1 = Returns (result, w2)"
    by (metis prod.exhaust)
  have run: "ExecuteCode e code language w = Returns (result, Remove filePath w2)"
    using assms(1,2,4) ret ok
    by (cases "WriteFile filePath code 493 w") (simp add: ExecuteCode_def Let_def)
  have written: "map_option content (files w1 filePath) = Some code"
    using assms(3,4) by (simp add: WriteFile_def write_all_def create_trunc_def)
  from assms(1) obtain r where r: "ext = CHR ''.'' # r" "CHR ''/'' \<notin> set r"
    using language_ext_dot by blast
  have "CHR ''/'' \<notin> set (temp_name (clock w) ext)"
    using r sprint_int_no_special(1) [of "clock w"] by (simp add: temp_name_def)
  moreover have "temp_name (clock w) ext \<noteq> []"
    by (simp add: temp_name_def)
  ultimately have base: "Base filePath = temp_name (clock w) ext"
    using assms(2) by (simp add: Base_Join)
  have uniq: "(temp_name t' ext' = temp_name (clock w) ext) = (t' = clock w \<and> ext' = ext)"
    if "language_ext language' = Some ext'" for language' ext' t'
  proof
    assume eq: "temp_name t' ext' = temp_name (clock w) ext"
    from that obtain r' where r': "ext' = CHR ''.'' # r'"
      using language_ext_dot by blast
    from eq have "t' = clock w \<and> r' = r"
      unfolding r(1) r' by (rule temp_name_inj)
    then show "t' = clock w \<and> ext' = ext"
      using r(1) r' by simp
  next
    assume "t' = clock w \<and> ext' = ext"
    then show "temp_name t' ext' = temp_name (clock w) ext"
      by simp
  qed
  show ?thesis
    using ret run written base uniq by auto
qed

theorem ExecuteCode_temp_file_is_removed_witness:
  "language_ext ''python'' = Some ''.py''
   \<and> \<not> unwritable py_world ''/tmp/smollm-sandbox/tmp_1700000000000000000.py''
   \<and> \<not> needs_compile ''.py''
   \<and> (\<exists>w2. ExecuteCode (NewExecutor WORK_DIR) ''print(42)'' ''python'' py_world
          = Returns (Inr \<lparr>Success = True, Output = [], Error = [], ExitCode = 0,
                          ExecuteTime = 1000, CompileTime = 0, Compiled = False,
                          Language = ''.py''\<rparr>,
                     Remove ''/tmp/smollm-sandbox/tmp_1700000000000000000.py'' w2)
        \<and> files (Remove ''/tmp/smollm-sandbox/tmp_1700000000000000000.py'' w2)
              ''/tmp/smollm-sandbox/tmp_1700000000000000000.py'' = None)
   \<and> language_ext ''c'' = Some ''.c''
   \<and> \<not> unwritable bad_cc_world ''/tmp/smollm-sandbox/tmp_1700000000000000000.c''
   \<and> needs_compile ''.c''
   \<and> compiler_ends (compiler (NewExecutor WORK_DIR)) ''/tmp/smollm-sandbox/tmp_1700000000000000000.c''
         (snd (copyFile ''/tmp/smollm-sandbox/tmp_1700000000000000000.c''
                 ''/tmp/smollm-sandbox/tmp_1700000000000000000.c''
                 (snd (WriteFile ''/tmp/smollm-sandbox/tmp_1700000000000000000.c'' ''int main({'' 493
                         bad_cc_world))))
   \<and> (\<exists>w2. ExecuteCode (NewExecutor WORK_DIR) ''int main({'' ''c'' bad_cc_world
          = Returns (Inr \<lparr>Success = False, Output = [],
                          Error = msg_c @ '': '' @ ''prog.c:1:1: error: expected identifier'',
                          ExitCode = 0, ExecuteTime = 0, CompileTime = 3000, Compiled = True,
                          Language = ''.c''\<rparr>,
                     Remove ''/tmp/smollm-sandbox/tmp_1700000000000000000.c'' w2)
        \<and> files (Remove ''/tmp/smollm-sandbox/tmp_1700000000000000000.c'' w2)
              ''/tmp/smollm-sandbox/tmp_1700000000000000000.c'' = None)"
proof -
  let ?E = "NewExecutor WORK_DIR"
  let ?p = "''/tmp/smollm-sandbox/tmp_1700000000000000000.py''"
  let ?c = "''/tmp/smollm-sandbox/tmp_1700000000000000000.c''"
  let ?w1 = "snd (WriteFile ?p ''print(42)'' 493 py_world)"
  let ?v1 = "snd (WriteFile ?c ''int main({'' 493 bad_cc_world)"
  let ?r = "\<lparr>Success = True, Output = [], Error = [], ExitCode = 0,
             ExecuteTime = 1000, CompileTime = 0, Compiled = False, Language = ''.py''\<rparr>"
  let ?s = "\<lparr>Success = False, Output = [],
             Error = msg_c @ '': '' @ ''prog.c:1:1: error: expected identifier'',
             ExitCode = 0, ExecuteTime = 0, CompileTime = 3000, Compiled = True,
             Language = ''.c''\<rparr>"
  have p: "?p = Join (workDir ?E) (temp_name (clock py_world) ''.py'')"
    by (simp add: py_world_def example_world_def temp_name_example NewExecutor_def WORK_DIR_def
          Join_def)
  have c: "?c = Join (workDir ?E) (temp_name (clock bad_cc_world) ''.c'')"
    by (simp add: bad_cc_world_def example_world_def temp_name_example_c NewExecutor_def
          WORK_DIR_def Join_def)
  have u: "\<not> unwritable py_world ?p" and u': "\<not> unwritable bad_cc_world ?c"
    by (simp_all add: py_world_def bad_cc_world_def example_world_def)
  have np: "\<not> needs_compile ''.py''" and nc: "needs_compile ''.c''"
    by (simp_all add: needs_compile_def)
  have ends: "compiler_ends (compiler ?E) ?c (snd (copyFile ?c ?c ?v1))"
    by (simp add: compiler_ends_def ext_tmp_c NewExecutor_def NewCompiler_def copyFile_def
          WriteFile_def create_trunc_def write_all_def read_all_def chmod_def bad_cc_world_def
          world_simps Let_def)
  have e1: "\<exists>w2. ExecuteFile ?E ?p ?w1 = Returns (Inr ?r, w2)"
    by (simp add: code_simps py_world_def example_world_def toy_python_def exits_with_def)
  have e2: "\<exists>w2. ExecuteFile ?E ?c ?v1 = Returns (Inr ?s, w2)"
    by (simp add: code_simps bad_cc_world_def world_simps)
  from ExecuteCode_temp_file_is_removed [OF language_python p u refl] np
  obtain result w2 where a:
    "ExecuteFile ?E ?p ?w1 = Returns (result, w2)"
    "ExecuteCode ?E ''print(42)'' ''python'' py_world = Returns (result, Remove ?p w2)"
    "files (Remove ?p w2) ?p = None"
    by blast
  from a(1) e1 have a': "result = Inr ?r"
    by auto
  from ExecuteCode_temp_file_is_removed [OF language_c c u' refl] ends
  obtain result' w2' where b:
    "ExecuteFile ?E ?c ?v1 = Returns (result', w2')"
    "ExecuteCode ?E ''int main({'' ''c'' bad_cc_world = Returns (result', Remove ?c w2')"
    "files (Remove ?c w2') ?c = None"
    by blast
  from b(1) e2 have b': "result' = Inr ?s"
    by auto
  have A: "\<exists>w2. ExecuteCode ?E ''print(42)'' ''python'' py_world = Returns (Inr ?r, Remove ?p w2)
             \<and> files (Remove ?p w2) ?p = None"
    using a a' by blast
  have B: "\<exists>w2. ExecuteCode ?E ''int main({'' ''c'' bad_cc_world = Returns (Inr ?s, Remove ?c w2)
             \<and> files (Remove ?c w2) ?c = None"
    using b b' by blast
  show ?thesis
    using language_python u np A language_c u' nc ends B by (intro conjI)
qed

subsection \<open>The tables of profiles and timeouts\<close>

lemma env_step_executor:
  "env_step op (e, w) = Returns (e', w') \<Longrightarrow> executor e' = executor e"
  by (cases op) (auto simp: SetResourceLimits_def split: run.splits)

lemma env_step_dom:
  "env_step op (e, w) = Returns (e', w') \<Longrightarrow> dom (etimeouts e') = dom (etimeouts e)"
  by (cases op) (auto simp: SetResourceLimits_def dom_def split: run.splits option.splits)

lemma env_step_same:
  "env_step op (e, w) = Returns (e', w') \<Longrightarrow> \<forall>c m t. op \<noteq> OpSetResourceLimits c m t
     \<Longrightarrow> etimeouts e' = etimeouts e"
  by (cases op) (auto split: run.splits)

lemma env_step_value:
  "env_step op (e, w) = Returns (e', w') \<Longrightarrow> etimeouts e' ext = Some t
     \<Longrightarrow> etimeouts e ext = Some t \<or> (\<exists>c m. op = OpSetResourceLimits c m t)"
  by (cases op) (auto simp: SetResourceLimits_def split: run.splits option.splits)

lemma env_steps_Cons:
  assumes "env_steps (op # ops) (e, w) = Returns (e', w')"
  obtains e1 w1 where "env_step op (e, w) = Returns (e1, w1)"
    and "env_steps ops (e1, w1) = Returns (e', w')"
  using assms by (cases "env_step op (e, w)") auto

lemma env_steps_executor:
  "env_steps ops (e, w) = Returns (e', w') \<Longrightarrow> executor e' = executor e"
proof (induction ops arbitrary: e w)
  case Nil
  then show ?case by simp
next
  case (Cons op ops)
  from Cons.prems obtain e1 w1 where
    step: "env_step op (e, w) = Returns (e1, w1)"
    and rest: "env_steps ops (e1, w1) = Returns (e', w')"
    by (rule env_steps_Cons)
  have "executor e' = executor e1"
    using rest by (rule Cons.IH)
  also have "executor e1 = executor e"
    using step by (rule env_step_executor)
  finally show ?case .
qed

lemma env_steps_dom:
  "env_steps ops (e, w) = Returns (e', w') \<Longrightarrow> dom (etimeouts e') = dom (etimeouts e)"
proof (induction ops arbitrary: e w)
  case Nil
  then show ?case by simp
next
  case (Cons op ops)
  from Cons.prems obtain e1 w1 where
    step: "env_step op (e, w) = Returns (e1, w1)"
    and rest: "env_steps ops (e1, w1) = Returns (e', w')"
    by (rule env_steps_Cons)
  have "dom (etimeouts e') = dom (etimeouts e1)"
    using rest by (rule Cons.IH)
  also have "dom (etimeouts e1) = dom (etimeouts e)"
    using step by (rule env_step_dom)
  finally show ?case .
qed

lemma env_steps_same:
  "env_steps ops (e, w) = Returns (e', w') \<Longrightarrow> \<forall>c m t. OpSetResourceLimits c m t \<notin> set ops
     \<Longrightarrow> etimeouts e' = etimeouts e"
proof (induction ops arbitrary: e w)
  case Nil
  then show ?case by simp
next
  case (Cons op ops)
  from Cons.prems(1) obtain e1 w1 where
    step: "env_step op (e, w) = Returns (e1, w1)"
    and rest: "env_steps ops (e1, w1) = Returns (e', w')"
    by (rule env_steps_Cons)
  from Cons.prems(2) have here: "\<forall>c m t. op \<noteq> OpSetResourceLimits c m t"
    and later: "\<forall>c m t. OpSetResourceLimits c m t \<notin> set ops"
    by auto
  have "etimeouts e' = etimeouts e1"
    using rest later by (rule Cons.IH)
  also have "etimeouts e1 = etimeouts e"
    using step here by (rule env_step_same)
  finally show ?case .
qed

lemma env_steps_value:
  "env_steps ops (e, w) = Returns (e', w') \<Longrightarrow> etimeouts e' ext = Some t
     \<Longrightarrow> etimeouts e ext = Some t \<or> (\<exists>c m. OpSetResourceLimits c m t \<in> set ops)"
proof (induction ops arbitrary: e w)
  case Nil
  then show ?case by simp
next
  case (Cons op ops)
  from Cons.prems(1) obtain e1 w1 where
    step: "env_step op (e, w) = Returns (e1, w1)"
    and rest: "env_steps ops (e1, w1) = Returns (e', w')"
    by (rule env_steps_Cons)
  have "etimeouts e1 ext = Some t \<or> (\<exists>c m. OpSetResourceLimits c m t \<in> set ops)"
    using rest Cons.prems(2) by (rule Cons.IH)
  then show ?case
  proof
    assume "etimeouts e1 ext = Some t"
    with step have "etimeouts e ext = Some t \<or> (\<exists>c m. op = OpSetResourceLimits c m t)"
      by (rule env_step_value)
    then show ?thesis by auto
  next
    assume "\<exists>c m. OpSetResourceLimits c m t \<in> set ops"
    then show ?thesis by auto
  qed
qed

text \<open>
  C5, as stated, fails: \<open>SetResourceLimits\<close> overwrites the timeouts of the environment.
\<close>

theorem SetResourceLimits_changes_timeouts:
  "etimeouts NewEnvironment ''.py'' = Some 30
   \<and> etimeouts (SetResourceLimits NewEnvironment 50 512 5) ''.py'' = Some 5
   \<and> env_step (OpSetResourceLimits 50 512 5) (NewEnvironment, xyz_world)
       = Returns (SetResourceLimits NewEnvironment 50 512 5, xyz_world)
   \<and> GetTimeout (SetResourceLimits NewEnvironment 50 512 5) ''.py'' \<noteq> GetTimeout NewEnvironment ''.py''"
  by (simp add: NewEnvironment_def SetResourceLimits_def GetTimeout_def timeout_of_def
        TIMEOUT_SECONDS_def)

lemma env_step_table:
  assumes "env_step op (e, w) = Returns (e', w')"
  shows "etimeouts e' ext =
           (case op of
              OpSetResourceLimits cpuPercent memoryMB t \<Rightarrow> map_option (\<lambda>_. t) (etimeouts e ext)
            | _ \<Rightarrow> etimeouts e ext)"
  using assms
  by (cases op) (auto simp: SetResourceLimits_def split: run.splits option.splits)

lemma env_steps_table:
  "env_steps ops (e, w) = Returns (e', w') \<Longrightarrow>
     etimeouts e' ext =
       (case last_limit ops of
          None \<Rightarrow> etimeouts e ext
        | Some t \<Rightarrow> map_option (\<lambda>_. t) (etimeouts e ext))"
proof (induction ops arbitrary: e w)
  case Nil
  then show ?case by simp
next
  case (Cons op ops)
  from Cons.prems obtain e1 w1 where
    step: "env_step op (e, w) = Returns (e1, w1)"
    and rest: "env_steps ops (e1, w1) = Returns (e', w')"
    by (rule env_steps_Cons)
  note s = env_step_table [OF step, of ext]
  note r = Cons.IH [OF rest]
  show ?case
  proof (cases "last_limit ops")
    case None
    then show ?thesis
      using s r by (cases op) simp_all
  next
    case (Some t)
    then show ?thesis
      using s r by (cases op) (simp_all add: option.map_comp comp_def)
  qed
qed

text \<open>
  C5, amended. Through any sequence of operations of the environment and of its executor
  that returns, the profiles of the compiler and the timeouts of the executor stay as
  they were created, and so does the set of extensions that have a timeout in the
  environment. The timeouts of the environment are changed by \<open>SetResourceLimits\<close> and
  by nothing else: without that operation in the sequence the table is the same, and
  with it every extension that had a timeout has the \<open>timeoutSeconds\<close> of the last
  \<open>SetResourceLimits\<close>, and no other extension has one.
\<close>

theorem tables_change_only_by_SetResourceLimits:
  assumes "env_steps ops (e, w) = Returns (e', w')"
  shows "configs (compiler (executor e')) = configs (compiler (executor e))
       \<and> timeouts (executor e') = timeouts (executor e)
       \<and> dom (etimeouts e') = dom (etimeouts e)
       \<and> (last_limit ops = None \<longrightarrow> etimeouts e' = etimeouts e)
       \<and> (\<forall>t. last_limit ops = Some t \<longrightarrow>
             (\<forall>ext. etimeouts e' ext = (if ext \<in> dom (etimeouts e) then Some t else None)))"
proof (intro conjI allI impI)
  have ex: "executor e' = executor e"
    using assms by (rule env_steps_executor)
  show "configs (compiler (executor e')) = configs (compiler (executor e))"
    by (simp only: ex)
  show "timeouts (executor e') = timeouts (executor e)"
    by (simp only: ex)
  show "dom (etimeouts e') = dom (etimeouts e)"
    using assms by (rule env_steps_dom)
  show "etimeouts e' = etimeouts e" if "last_limit ops = None"
  proof
    fix ext
    show "etimeouts e' ext = etimeouts e ext"
      using env_steps_table [OF assms, of ext] that by simp
  qed
  show "etimeouts e' ext = (if ext \<in> dom (etimeouts e) then Some t else None)"
    if "last_limit ops = Some t" for t ext
    using env_steps_table [OF assms, of ext] that by (cases "etimeouts e ext") auto
qed

theorem tables_change_only_by_SetResourceLimits_witness:
  "env_steps [OpGetTimeout ''.py'', OpCleanupTempFiles, OpCheckFileSecurity ''/home/u/prog.xyz'']
     (NewEnvironment, xyz_world) = Returns (NewEnvironment, CleanupTempFiles NewEnvironment xyz_world)
   \<and> last_limit [OpGetTimeout ''.py'', OpCleanupTempFiles, OpCheckFileSecurity ''/home/u/prog.xyz'']
       = None
   \<and> env_steps [OpSetResourceLimits 80 256 9, OpGetWorkDir, OpSetResourceLimits 50 512 5]
         (NewEnvironment, xyz_world)
       = Returns (SetResourceLimits (SetResourceLimits NewEnvironment 80 256 9) 50 512 5, xyz_world)
   \<and> last_limit [OpSetResourceLimits 80 256 9, OpGetWorkDir, OpSetResourceLimits 50 512 5] = Some 5
   \<and> configs (compiler (executor (SetResourceLimits (SetResourceLimits NewEnvironment 80 256 9) 50 512 5)))
       = configs (compiler (executor NewEnvironment))
   \<and> timeouts (executor (SetResourceLimits (SetResourceLimits NewEnvironment 80 256 9) 50 512 5))
       = timeouts (executor NewEnvironment)
   \<and> dom (etimeouts (SetResourceLimits (SetResourceLimits NewEnvironment 80 256 9) 50 512 5))
       = dom (etimeouts NewEnvironment)
   \<and> ''.py'' \<in> dom (etimeouts NewEnvironment)
   \<and> etimeouts (SetResourceLimits (SetResourceLimits NewEnvironment 80 256 9) 50 512 5) ''.py'' = Some 5
   \<and> ''.sh'' \<notin> dom (etimeouts NewEnvironment)
   \<and> etimeouts (SetResourceLimits (SetResourceLimits NewEnvironment 80 256 9) 50 512 5) ''.sh'' = None"
proof -
  let ?e2 = "SetResourceLimits (SetResourceLimits NewEnvironment 80 256 9) 50 512 5"
  have s1: "env_steps [OpGetTimeout ''.py'', OpCleanupTempFiles, OpCheckFileSecurity ''/home/u/prog.xyz'']
     (NewEnvironment, xyz_world) = Returns (NewEnvironment, CleanupTempFiles NewEnvironment xyz_world)"
    by simp
  have n1: "last_limit [OpGetTimeout ''.py'', OpCleanupTempFiles, OpCheckFileSecurity ''/home/u/prog.xyz'']
       = None"
    by simp
  have s2: "env_steps [OpSetResourceLimits 80 256 9, OpGetWorkDir, OpSetResourceLimits 50 512 5]
              (NewEnvironment, xyz_world) = Returns (?e2, xyz_world)"
    by simp
  have n2: "last_limit [OpSetResourceLimits 80 256 9, OpGetWorkDir, OpSetResourceLimits 50 512 5] = Some 5"
    by simp
  have py: "''.py'' \<in> dom (etimeouts NewEnvironment)"
    and sh: "''.sh'' \<notin> dom (etimeouts NewEnvironment)"
    by (simp_all add: NewEnvironment_def dom_def)
  note i2 = tables_change_only_by_SetResourceLimits [OF s2]
  have i2a: "configs (compiler (executor ?e2)) = configs (compiler (executor NewEnvironment))"
    and i2b: "timeouts (executor ?e2) = timeouts (executor NewEnvironment)"
    and i2c: "dom (etimeouts ?e2) = dom (etimeouts NewEnvironment)"
    using i2 by simp_all
  have i2d: "etimeouts ?e2 ext = (if ext \<in> dom (etimeouts NewEnvironment) then Some 5 else None)"
    for ext
    using i2 n2 by (elim conjE) simp
  have v1: "etimeouts ?e2 ''.py'' = Some 5"
    using i2d [of "''.py''"] py by simp
  have v2: "etimeouts ?e2 ''.sh'' = None"
    using i2d [of "''.sh''"] sh by simp
  show ?thesis
    using s1 n1 s2 n2 i2a i2b i2c py v1 sh v2 by (intro conjI)
qed

subsection \<open>The run of the staged file\<close>

lemma run_staged_exits:
  assumes "run_command ext executablePath = Some (name, args)"
    and "p = programs w name args (workDir e) (files w)"
    and "start_error p = None"
    and "exits_first p (seconds (timeout_of (timeouts e) ext))"
    and "lifetime p = Some t"
  shows "run_staged e ext executablePath compileResult w =
           (Inr \<lparr>Success = (status p = 0 \<and> int (length (out_by p t)) \<le> maxOutputSize e),
                  Output = out_by p t,
                  Error = err_by p t,
                  ExitCode = (if int (length (out_by p t)) \<le> maxOutputSize e then status p else 0),
                  ExecuteTime = int t,
                  CompileTime = (case compileResult of Some cr \<Rightarrow> cCompileTime cr | None \<Rightarrow> 0),
                  Compiled = (compileResult \<noteq> None),
                  Language = ext\<rparr>,
            elapse p t (spawn name args True w))"
  using assms
  by (simp add: run_staged_def race_def Let_def exit_code_of_def)

lemma run_staged_expires:
  assumes "run_command ext executablePath = Some (name, args)"
    and "p = programs w name args (workDir e) (files w)"
    and "start_error p = None"
    and "\<not> exits_first p (seconds (timeout_of (timeouts e) ext))"
    and "t = nat (seconds (timeout_of (timeouts e) ext))"
  shows "run_staged e ext executablePath compileResult w =
           (Inr \<lparr>Success = False,
                  Output = out_by p t,
                  Error = err_by p t,
                  ExitCode = 0,
                  ExecuteTime = int t,
                  CompileTime = (case compileResult of Some cr \<Rightarrow> cCompileTime cr | None \<Rightarrow> 0),
                  Compiled = (compileResult \<noteq> None),
                  Language = ext\<rparr>,
            kill True (next_pid w) (elapse p t (spawn name args True w)))"
  using assms
  by (simp add: run_staged_def race_def Let_def exit_code_of_def)

lemma trace_after_exit [simp]:
  "trace (elapse p t (spawn name args setpgid w)) = trace w @ [Spawn (next_pid w) name args setpgid]"
  by (simp add: elapse_def spawn_def)

lemma trace_after_kill [simp]:
  "trace (kill True pid (elapse p t (spawn name args setpgid w)))
     = trace w @ [Spawn (next_pid w) name args setpgid, KillGroup pid]"
  by (simp add: kill_def elapse_def spawn_def)

lemma ext_big: "ToLower (Ext ''/home/u/big.py'') = ''.py''"
  by (simp add: path_simps)

lemma tmp_big: "Join (workDir (NewExecutor WORK_DIR)) (Base ''/home/u/big.py'') = ''/tmp/smollm-sandbox/big.py''"
  by (simp add: path_simps NewExecutor_def WORK_DIR_def)

lemma flood_length: "length flood = 1048577"
  by (simp add: flood_def)

lemmas run_simps =
  ExecuteFile_def run_staged_def race_def copyFile_def create_trunc_def write_all_def
  read_all_def chmod_def spawn_def elapse_def kill_def exits_first_def NewExecutor_def
  NewCompiler_def WORK_DIR_def TIMEOUT_SECONDS_def MAX_OUTPUT_SIZE_def needs_compile_def
  run_command_def timeout_of_def seconds_def exit_code_of_def returned_def Let_def

text \<open>
  C1, as stated, fails: an interpreter writes one byte more than the cap and exits; the
  result holds all of that output, and the trace holds the start of the process and no
  kill.
\<close>

theorem output_over_cap_is_returned:
  "map_option fst (returned (ExecuteFile (NewExecutor WORK_DIR) ''/home/u/big.py'' flood_world))
     = Some (Inr \<lparr>Success = False, Output = flood, Error = [], ExitCode = 0,
                   ExecuteTime = 1000, CompileTime = 0, Compiled = False, Language = ''.py''\<rparr>)
   \<and> map_option (trace \<circ> snd)
         (returned (ExecuteFile (NewExecutor WORK_DIR) ''/home/u/big.py'' flood_world))
     = Some [Spawn 100 ''python3'' [''/tmp/smollm-sandbox/big.py''] True]
   \<and> maxOutputSize (NewExecutor WORK_DIR) < int (length flood)"
  by (simp add: ext_big tmp_big [unfolded NewExecutor_def WORK_DIR_def, simplified] flood_length
        flood_world_def world_simps run_simps)

text \<open>
  C1, amended. The length of the captured output is looked at once, after the process has
  exited or has been killed at the deadline, and nothing is killed because of it: a
  process that exits by itself leaves its start in the trace and no kill, however much
  it has written; only a process that has not exited by the deadline is killed. When the
  captured output is longer than \<open>maxOutputSize\<close> the result is a failure. When it is
  within the cap, \<open>Output\<close> is the captured output as it is: what the process had
  written when it exited (with its error text, its status as exit code, and success
  exactly for status 0), or what it had written by the deadline when it was killed.
\<close>

theorem output_cap_is_checked_after_the_run:
  assumes "run_command ext executablePath = Some (name, args)"
    and "p = programs w name args (workDir e) (files w)"
    and "start_error p = None"
    and "deadline = seconds (timeout_of (timeouts e) ext)"
  shows "\<exists>r w'. run_staged e ext executablePath compileResult w = (Inr r, w')
      \<and> (\<forall>t. exits_first p deadline \<and> lifetime p = Some t \<longrightarrow>
            trace w' = trace w @ [Spawn (next_pid w) name args True]
            \<and> (int (length (out_by p t)) \<le> maxOutputSize e
                 \<longrightarrow> Output r = out_by p t \<and> Error r = err_by p t
                     \<and> ExitCode r = status p \<and> Success r = (status p = 0))
            \<and> (maxOutputSize e < int (length (out_by p t)) \<longrightarrow> \<not> Success r))
      \<and> (\<not> exits_first p deadline \<longrightarrow>
            trace w' = trace w @ [Spawn (next_pid w) name args True, KillGroup (next_pid w)]
            \<and> \<not> Success r
            \<and> (int (length (out_by p (nat deadline))) \<le> maxOutputSize e
                 \<longrightarrow> Output r = out_by p (nat deadline)))"
proof (cases "exits_first p deadline")
  case True
  then obtain t where t: "lifetime p = Some t"
    by (auto simp: exits_first_def split: option.splits)
  show ?thesis
    using run_staged_exits [OF assms(1,2,3) True [unfolded assms(4)] t, of compileResult] True t
    by auto
next
  case False
  show ?thesis
    using run_staged_expires [OF assms(1,2,3) False [unfolded assms(4)] refl, of compileResult] False
      assms(4)
    by auto
qed

theorem output_cap_is_checked_after_the_run_witness:
  "exits_first (exits_with 1000 0 flood []) (seconds (timeout_of (timeouts (NewExecutor WORK_DIR)) ''.py''))
   \<and> maxOutputSize (NewExecutor WORK_DIR) < int (length flood)
   \<and> (\<exists>r w'. run_staged (NewExecutor WORK_DIR) ''.py'' ''/tmp/smollm-sandbox/big.py'' None flood_world
                 = (Inr r, w')
          \<and> trace w' = [Spawn 100 ''python3'' [''/tmp/smollm-sandbox/big.py''] True]
          \<and> \<not> Success r)
   \<and> exits_first (exits_with 2000 3 ''partial'' ''Traceback'')
         (seconds (timeout_of (timeouts (NewExecutor WORK_DIR)) ''.py''))
   \<and> int (length ''partial'') \<le> maxOutputSize (NewExecutor WORK_DIR)
   \<and> (\<exists>r w'. run_staged (NewExecutor WORK_DIR) ''.py'' ''/tmp/smollm-sandbox/fail.py'' None failing_world
                 = (Inr r, w')
          \<and> trace w' = [Spawn 100 ''python3'' [''/tmp/smollm-sandbox/fail.py''] True]
          \<and> Output r = ''partial'' \<and> Error r = ''Traceback'' \<and> ExitCode r = 3 \<and> \<not> Success r)
   \<and> \<not> exits_first (never_exits []) (seconds (timeout_of (timeouts (NewExecutor WORK_DIR)) ''.py''))
   \<and> (\<exists>r w'. run_staged (NewExecutor WORK_DIR) ''.py'' ''/tmp/smollm-sandbox/loop.py'' None loop_world
                 = (Inr r, w')
          \<and> trace w' = [Spawn 100 ''python3'' [''/tmp/smollm-sandbox/loop.py''] True, KillGroup 100]
          \<and> Output r = [] \<and> \<not> Success r)"
proof -
  let ?E = "NewExecutor WORK_DIR"
  let ?x = "''/tmp/smollm-sandbox/big.py''"
  let ?y = "''/tmp/smollm-sandbox/fail.py''"
  let ?z = "''/tmp/smollm-sandbox/loop.py''"
  let ?p = "exits_with 1000 0 flood []"
  let ?q = "exits_with 2000 3 ''partial'' ''Traceback''"
  let ?d = "seconds (timeout_of (timeouts ?E) ''.py'')"
  have rcx: "run_command ''.py'' ?x = Some (''python3'', [?x])"
    and rcy: "run_command ''.py'' ?y = Some (''python3'', [?y])"
    and rcz: "run_command ''.py'' ?z = Some (''python3'', [?z])"
    by (simp_all add: run_command_def)
  have p1: "?p = programs flood_world ''python3'' [?x] (workDir ?E) (files flood_world)"
    by (simp add: flood_world_def example_world_def)
  have p2: "?q = programs failing_world ''python3'' [?y] (workDir ?E) (files failing_world)"
    by (simp add: failing_world_def example_world_def)
  have p3: "never_exits [] = programs loop_world ''python3'' [?z] (workDir ?E) (files loop_world)"
    by (simp add: loop_world_def example_world_def)
  have s1: "start_error ?p = None" and l1: "lifetime ?p = Some 1000"
    and o1: "out_by ?p 1000 = flood"
    by (simp_all add: exits_with_def)
  have s2: "start_error ?q = None" and l2: "lifetime ?q = Some 2000" and st2: "status ?q = 3"
    and o2: "out_by ?q 2000 = ''partial''" and e2: "err_by ?q 2000 = ''Traceback''"
    by (simp_all add: exits_with_def)
  have s3: "start_error (never_exits []) = None" and o3: "out_by (never_exits []) t = []" for t
    by (simp_all add: never_exits_def)
  have d: "?d = 30000000000"
    by (simp add: NewExecutor_def timeout_of_def TIMEOUT_SECONDS_def seconds_def)
  have x1: "exits_first ?p ?d" and x2: "exits_first ?q ?d"
    unfolding d by (simp_all add: exits_first_def exits_with_def)
  have x3: "\<not> exits_first (never_exits []) ?d"
    by (simp add: exits_first_def never_exits_def)
  have big: "maxOutputSize ?E < int (length flood)"
    by (simp add: NewExecutor_def MAX_OUTPUT_SIZE_def flood_length)
  have small: "int (length ''partial'') \<le> maxOutputSize ?E"
    and empty: "int (length ([] :: string)) \<le> maxOutputSize ?E"
    by (simp_all add: NewExecutor_def MAX_OUTPUT_SIZE_def)
  have t0: "trace flood_world = []" "next_pid flood_world = 100"
    "trace failing_world = []" "next_pid failing_world = 100"
    "trace loop_world = []" "next_pid loop_world = 100"
    by (simp_all add: flood_world_def failing_world_def loop_world_def example_world_def)
  from output_cap_is_checked_after_the_run [OF rcx p1 s1 refl, of None]
  obtain r w' where a:
    "run_staged ?E ''.py'' ?x None flood_world = (Inr r, w')"
    "\<forall>t. exits_first ?p ?d \<and> lifetime ?p = Some t \<longrightarrow>
        trace w' = trace flood_world @ [Spawn (next_pid flood_world) ''python3'' [?x] True]
        \<and> (maxOutputSize ?E < int (length (out_by ?p t)) \<longrightarrow> \<not> Success r)"
    by blast
  from a(2) x1 l1 big have a':
    "trace w' = [Spawn 100 ''python3'' [?x] True] \<and> \<not> Success r"
    by (simp add: o1 t0)
  from output_cap_is_checked_after_the_run [OF rcy p2 s2 refl, of None]
  obtain r2 w2 where b:
    "run_staged ?E ''.py'' ?y None failing_world = (Inr r2, w2)"
    "\<forall>t. exits_first ?q ?d \<and> lifetime ?q = Some t \<longrightarrow>
        trace w2 = trace failing_world @ [Spawn (next_pid failing_world) ''python3'' [?y] True]
        \<and> (int (length (out_by ?q t)) \<le> maxOutputSize ?E
             \<longrightarrow> Output r2 = out_by ?q t \<and> Error r2 = err_by ?q t
                 \<and> ExitCode r2 = status ?q \<and> Success r2 = (status ?q = 0))"
    by blast
  from b(2) x2 l2 small have b':
    "trace w2 = [Spawn 100 ''python3'' [?y] True]
     \<and> Output r2 = ''partial'' \<and> Error r2 = ''Traceback'' \<and> ExitCode r2 = 3 \<and> \<not> Success r2"
    by (simp add: o2 e2 st2 t0)
  from output_cap_is_checked_after_the_run [OF rcz p3 s3 refl, of None]
  obtain r3 w3 where c:
    "run_staged ?E ''.py'' ?z None loop_world = (Inr r3, w3)"
    "\<not> exits_first (never_exits []) ?d \<longrightarrow>
        trace w3 = trace loop_world
                     @ [Spawn (next_pid loop_world) ''python3'' [?z] True,
                        KillGroup (next_pid loop_world)]
        \<and> \<not> Success r3
        \<and> (int (length (out_by (never_exits []) (nat ?d))) \<le> maxOutputSize ?E
             \<longrightarrow> Output r3 = out_by (never_exits []) (nat ?d))"
    by blast
  from c(2) x3 empty have c':
    "trace w3 = [Spawn 100 ''python3'' [?z] True, KillGroup 100] \<and> Output r3 = [] \<and> \<not> Success r3"
    by (simp add: o3 t0)
  show ?thesis
    using x1 big a(1) a' x2 small b(1) b' x3 c(1) c' by blast
qed

text \<open>
  C3, as stated, fails: one interpreter writes more than the cap and never exits, and is
  killed at the deadline; another writes the same and exits with status 1 at the instant
  of the deadline, where \<open>select\<close> takes the exit, and is not killed. \<open>ExecuteFile\<close>
  returns the same result for both. A third writes the same and exits with status 1
  after 1000 nanoseconds: its result differs from the two in the execution time only,
  and has the exit code 0.
\<close>

theorem timeout_result_equals_exit_result:
  "map_option fst (returned (ExecuteFile (NewExecutor WORK_DIR) ''/home/u/big.py'' flood_forever_world))
     = map_option fst (returned (ExecuteFile (NewExecutor WORK_DIR) ''/home/u/big.py'' flood_late_exit_world))
   \<and> map_option fst (returned (ExecuteFile (NewExecutor WORK_DIR) ''/home/u/big.py'' flood_forever_world))
     = Some (Inr \<lparr>Success = False, Output = flood, Error = [], ExitCode = 0,
                   ExecuteTime = 30000000000, CompileTime = 0, Compiled = False,
                   Language = ''.py''\<rparr>)
   \<and> map_option (trace \<circ> snd)
         (returned (ExecuteFile (NewExecutor WORK_DIR) ''/home/u/big.py'' flood_forever_world))
     = Some [Spawn 100 ''python3'' [''/tmp/smollm-sandbox/big.py''] True, KillGroup 100]
   \<and> map_option (trace \<circ> snd)
         (returned (ExecuteFile (NewExecutor WORK_DIR) ''/home/u/big.py'' flood_late_exit_world))
     = Some [Spawn 100 ''python3'' [''/tmp/smollm-sandbox/big.py''] True]
   \<and> status (programs flood_late_exit_world ''python3'' [''/tmp/smollm-sandbox/big.py'']
                ''/tmp/smollm-sandbox'' (files flood_late_exit_world)) = 1
   \<and> map_option fst (returned (ExecuteFile (NewExecutor WORK_DIR) ''/home/u/big.py'' flood_exit_world))
     = Some (Inr \<lparr>Success = False, Output = flood, Error = [], ExitCode = 0,
                   ExecuteTime = 1000, CompileTime = 0, Compiled = False, Language = ''.py''\<rparr>)
   \<and> status (programs flood_exit_world ''python3'' [''/tmp/smollm-sandbox/big.py'']
                ''/tmp/smollm-sandbox'' (files flood_exit_world)) = 1"
  by (simp add: ext_big tmp_big [unfolded NewExecutor_def WORK_DIR_def, simplified] flood_length
        flood_forever_world_def flood_late_exit_world_def flood_exit_world_def world_simps
        run_simps)

text \<open>
  C3, amended. When the process has not exited by the deadline, \<open>SIGKILL\<close> is sent to
  its process group (the process was started with \<open>Setpgid\<close>), and the result is a
  failure with exit code 0 and the deadline as execution time: the status of the killed
  process is not read. A process that exits by itself with a status other than 0, and
  whose output is within the cap, is not killed and gives a failure with that status as
  exit code; so the two results differ in the exit code.
\<close>

theorem timeout_kills_the_process_group:
  assumes "run_command ext executablePath = Some (name, args)"
    and "p = programs w name args (workDir e) (files w)"
    and "start_error p = None"
    and "deadline = seconds (timeout_of (timeouts e) ext)"
  shows "\<exists>r w'. run_staged e ext executablePath compileResult w = (Inr r, w')
      \<and> (\<not> exits_first p deadline \<longrightarrow>
            trace w' = trace w @ [Spawn (next_pid w) name args True, KillGroup (next_pid w)]
            \<and> \<not> Success r \<and> ExitCode r = 0 \<and> ExecuteTime r = int (nat deadline))
      \<and> (\<forall>t. exits_first p deadline \<and> lifetime p = Some t \<and> status p \<noteq> 0
               \<and> int (length (out_by p t)) \<le> maxOutputSize e \<longrightarrow>
            trace w' = trace w @ [Spawn (next_pid w) name args True]
            \<and> \<not> Success r \<and> ExitCode r = status p \<and> ExitCode r \<noteq> 0)"
proof (cases "exits_first p deadline")
  case True
  then obtain t where t: "lifetime p = Some t"
    by (auto simp: exits_first_def split: option.splits)
  show ?thesis
    using run_staged_exits [OF assms(1,2,3) True [unfolded assms(4)] t, of compileResult] True t
    by auto
next
  case False
  show ?thesis
    using run_staged_expires [OF assms(1,2,3) False [unfolded assms(4)] refl, of compileResult] False
      assms(4)
    by auto
qed

theorem timeout_kills_the_process_group_witness:
  "run_command ''.py'' ''/tmp/smollm-sandbox/loop.py''
     = Some (''python3'', [''/tmp/smollm-sandbox/loop.py''])
   \<and> \<not> exits_first (never_exits []) (seconds (timeout_of (timeouts (NewExecutor WORK_DIR)) ''.py''))
   \<and> (\<exists>r w'. run_staged (NewExecutor WORK_DIR) ''.py'' ''/tmp/smollm-sandbox/loop.py'' None loop_world
                 = (Inr r, w')
          \<and> trace w' = [Spawn 100 ''python3'' [''/tmp/smollm-sandbox/loop.py''] True, KillGroup 100]
          \<and> \<not> Success r \<and> ExitCode r = 0 \<and> ExecuteTime r = 30000000000)
   \<and> exits_first (exits_with 2000 3 ''partial'' ''Traceback'')
         (seconds (timeout_of (timeouts (NewExecutor WORK_DIR)) ''.py''))
   \<and> (\<exists>r w'. run_staged (NewExecutor WORK_DIR) ''.py'' ''/tmp/smollm-sandbox/fail.py'' None failing_world
                 = (Inr r, w')
          \<and> trace w' = [Spawn 100 ''python3'' [''/tmp/smollm-sandbox/fail.py''] True]
          \<and> \<not> Success r \<and> ExitCode r = 3)"
proof -
  let ?E = "NewExecutor WORK_DIR"
  let ?x = "''/tmp/smollm-sandbox/loop.py''"
  let ?y = "''/tmp/smollm-sandbox/fail.py''"
  let ?q = "exits_with 2000 3 ''partial'' ''Traceback''"
  let ?d = "seconds (timeout_of (timeouts ?E) ''.py'')"
  have rc: "run_command ''.py'' ?x = Some (''python3'', [?x])"
    and rc': "run_command ''.py'' ?y = Some (''python3'', [?y])"
    by (simp_all add: run_command_def)
  have p1: "never_exits [] = programs loop_world ''python3'' [?x] (workDir ?E) (files loop_world)"
    by (simp add: loop_world_def example_world_def)
  have p2: "?q = programs failing_world ''python3'' [?y] (workDir ?E) (files failing_world)"
    by (simp add: failing_world_def example_world_def)
  have s1: "start_error (never_exits []) = None"
    by (simp add: never_exits_def)
  have s2: "start_error ?q = None" and l2: "lifetime ?q = Some 2000" and st2: "status ?q = 3"
    and o2: "out_by ?q 2000 = ''partial''"
    by (simp_all add: exits_with_def)
  have d: "?d = 30000000000"
    by (simp add: NewExecutor_def timeout_of_def TIMEOUT_SECONDS_def seconds_def)
  have x1: "\<not> exits_first (never_exits []) ?d"
    by (simp add: exits_first_def never_exits_def)
  have x2: "exits_first ?q ?d"
    unfolding d by (simp add: exits_first_def exits_with_def)
  have small: "int (length ''partial'') \<le> maxOutputSize ?E"
    by (simp add: NewExecutor_def MAX_OUTPUT_SIZE_def)
  have t0: "trace loop_world = []" "next_pid loop_world = 100"
    "trace failing_world = []" "next_pid failing_world = 100"
    by (simp_all add: loop_world_def failing_world_def example_world_def)
  from timeout_kills_the_process_group [OF rc p1 s1 refl, of None]
  obtain r w' where a:
    "run_staged ?E ''.py'' ?x None loop_world = (Inr r, w')"
    "\<not> exits_first (never_exits []) ?d \<longrightarrow>
        trace w' = trace loop_world
                     @ [Spawn (next_pid loop_world) ''python3'' [?x] True, KillGroup (next_pid loop_world)]
        \<and> \<not> Success r \<and> ExitCode r = 0 \<and> ExecuteTime r = int (nat ?d)"
    by blast
  from a(2) x1 have a':
    "trace w' = [Spawn 100 ''python3'' [?x] True, KillGroup 100]
     \<and> \<not> Success r \<and> ExitCode r = 0 \<and> ExecuteTime r = 30000000000"
    by (simp add: t0 d)
  from timeout_kills_the_process_group [OF rc' p2 s2 refl, of None]
  obtain r2 w2 where b:
    "run_staged ?E ''.py'' ?y None failing_world = (Inr r2, w2)"
    "\<forall>t. exits_first ?q ?d \<and> lifetime ?q = Some t \<and> status ?q \<noteq> 0
          \<and> int (length (out_by ?q t)) \<le> maxOutputSize ?E \<longrightarrow>
        trace w2 = trace failing_world @ [Spawn (next_pid failing_world) ''python3'' [?y] True]
        \<and> \<not> Success r2 \<and> ExitCode r2 = status ?q \<and> ExitCode r2 \<noteq> 0"
    by blast
  from b(2) x2 l2 st2 small have b':
    "trace w2 = [Spawn 100 ''python3'' [?y] True] \<and> \<not> Success r2 \<and> ExitCode r2 = 3"
    by (simp add: o2 t0)
  show ?thesis
    using rc x1 a(1) a' x2 b(1) b' by blast
qed

subsection \<open>The compile step has no deadline\<close>

lemma Compile_hangs:
  assumes "configs c (ToLower (Ext sourcePath)) = Some config"
    and "p = programs w (Command config)
               (compile_args config (output_file sourcePath (ToLower (Ext sourcePath))) sourcePath)
               (cworkDir c) (files w)"
    and "start_error p = None"
    and "lifetime p = None"
  shows "Compile c sourcePath w = Hangs"
  using assms by (simp add: Compile_def Let_def cmd_Run_def)

lemma Compile_never_kills:
  assumes "Compile c sourcePath w = Returns (res, w')"
  shows "KillGroup pid \<notin> set (trace w') - set (trace w)"
    and "KillProcess pid \<notin> set (trace w') - set (trace w)"
  using Compile_trace [OF assms] by auto

text \<open>
  C2. \<open>Compile\<close> waits for the compiler with \<open>cmd.Run()\<close> and no timer. With a C
  compiler that never exits, \<open>ExecuteFile\<close> of a C file never returns. \<open>compile\<close> of
  the environment, which \<open>Execute\<close> does not call, does what the claim says: for the
  same compiler it returns the timeout error after 60 seconds and kills the process.
\<close>

theorem compile_step_blocks_for_ever:
  "ExecuteFile (NewExecutor WORK_DIR) ''/home/u/loop.c'' hang_cc_world = Hangs
   \<and> Execute NewEnvironment ''/home/u/loop.c'' hang_cc_world = Hangs
   \<and> getCompilerConfig ''.c''
       = Inr \<lparr>Command = ''gcc'', Args = [], OutputFlag = ''-o'',
               ErrorCodes = [1 \<mapsto> msg_c], NeedsCompiled = True\<rparr>
   \<and> fst (compile NewEnvironment ''/tmp/smollm-sandbox/loop.c''
             \<lparr>Command = ''gcc'', Args = [], OutputFlag = ''-o'',
               ErrorCodes = [1 \<mapsto> msg_c], NeedsCompiled = True\<rparr> hang_cc_world)
       = Inl (CompileTimeout 60)
   \<and> trace (snd (compile NewEnvironment ''/tmp/smollm-sandbox/loop.c''
                    \<lparr>Command = ''gcc'', Args = [], OutputFlag = ''-o'',
                      ErrorCodes = [1 \<mapsto> msg_c], NeedsCompiled = True\<rparr> hang_cc_world))
       = [Spawn 100 ''gcc'' [''-o'', ''/tmp/smollm-sandbox/loop.out'', ''/tmp/smollm-sandbox/loop.c'']
            False,
          KillProcess 100]"
proof -
  have ext: "ToLower (Ext ''/home/u/loop.c'') = ''.c''"
    and ext': "ToLower (Ext ''/tmp/smollm-sandbox/loop.c'') = ''.c''"
    and ext'': "Ext ''/tmp/smollm-sandbox/loop.c'' = ''.c''"
    and tmp: "Join ''/tmp/smollm-sandbox'' (Base ''/home/u/loop.c'') = ''/tmp/smollm-sandbox/loop.c''"
    by (simp_all add: path_simps)
  have a: "ExecuteFile (NewExecutor WORK_DIR) ''/home/u/loop.c'' hang_cc_world = Hangs"
    by (simp add: ext ext' tmp hang_cc_world_def world_simps exec_simps)
  then have b: "Execute NewEnvironment ''/home/u/loop.c'' hang_cc_world = Hangs"
    by (simp add: Execute_def NewEnvironment_def)
  have c: "getCompilerConfig ''.c''
       = Inr \<lparr>Command = ''gcc'', Args = [], OutputFlag = ''-o'',
               ErrorCodes = [1 \<mapsto> msg_c], NeedsCompiled = True\<rparr>"
    by (simp add: getCompilerConfig_def ToLower_def to_lower_char_def)
  have d: "compile NewEnvironment ''/tmp/smollm-sandbox/loop.c''
             \<lparr>Command = ''gcc'', Args = [], OutputFlag = ''-o'',
               ErrorCodes = [1 \<mapsto> msg_c], NeedsCompiled = True\<rparr> hang_cc_world
           = (Inl (CompileTimeout 60),
              kill False 100 (elapse (never_exits []) 60000000000
                (spawn ''gcc'' [''-o'', ''/tmp/smollm-sandbox/loop.out'', ''/tmp/smollm-sandbox/loop.c'']
                   False hang_cc_world)))"
    by (simp add: compile_def ext'' NewEnvironment_def TrimSuffix_def HasSuffix_def timeout_of_def
          TIMEOUT_SECONDS_def seconds_def race_def exits_first_def hang_cc_world_def world_simps
          WORK_DIR_def Let_def kill_def elapse_def spawn_def)
  have e: "trace (kill False 100 (elapse (never_exits []) 60000000000
                (spawn ''gcc'' [''-o'', ''/tmp/smollm-sandbox/loop.out'', ''/tmp/smollm-sandbox/loop.c'']
                   False hang_cc_world)))
           = [Spawn 100 ''gcc'' [''-o'', ''/tmp/smollm-sandbox/loop.out'', ''/tmp/smollm-sandbox/loop.c'']
                False,
              KillProcess 100]"
    by (simp add: kill_def elapse_def spawn_def hang_cc_world_def example_world_def)
  show ?thesis
    using a b c by (simp add: d e)
qed

subsection \<open>Letter case of the extension\<close>

lemma Language_is_lower_case:
  assumes "ExecuteFile e filePath w = Returns (Inr r, w')"
  shows "Language r = ToLower (Ext filePath)"
proof -
  from assms have ex: "files w filePath \<noteq> None"
    by (auto simp: ExecuteFile_def split: if_splits)
  obtain res w1 where c: "copyFile filePath (Join (workDir e) (Base filePath)) w = (res, w1)"
    by (cases "copyFile filePath (Join (workDir e) (Base filePath)) w")
  from ex obtain f where f: "files w filePath = Some f"
    by blast
  have "res = None"
    using assms f c by (cases res) (simp_all add: ExecuteFile_def Let_def)
  with c have c': "copyFile filePath (Join (workDir e) (Base filePath)) w = (None, w1)"
    by simp
  have lang: "Language r' = ext"
    if "run_staged e ext x cr w0 = (Inr r', w0')" for ext x cr w0 r' w0'
    using that
    by (auto simp: run_staged_def Let_def split: option.splits prod.splits raced.splits if_splits)
  show ?thesis
    using assms ExecuteFile_staged [OF ex c'] lang
    by (auto split: if_splits run.splits prod.splits sum.splits)
qed

lemma output_file_keeps_upper_case_extension:
  "output_file ''/tmp/smollm-sandbox/main.go'' (ToLower (Ext ''/tmp/smollm-sandbox/main.go''))
     = ''/tmp/smollm-sandbox/main''
   \<and> output_file ''/tmp/smollm-sandbox/main.GO'' (ToLower (Ext ''/tmp/smollm-sandbox/main.GO''))
     = ''/tmp/smollm-sandbox/main.GO''"
  by (simp add: path_simps output_file_def TrimSuffix_def HasSuffix_def)

text \<open>
  C10. \<open>ExecuteFile\<close> and \<open>Compile\<close> do lower-case the extension before they look
  anything up: \<open>main.GO\<close> and \<open>main.go\<close> both get the profile of Go and the
  language \<open>.go\<close>. But \<open>Compile\<close> makes the name of the artifact by trimming the
  lower-cased extension from the path as it was given, so for \<open>main.GO\<close> nothing is
  trimmed and the artifact is the source file itself. In one world, with a compiler that
  exits with status 0 and writes nothing, the two paths do not take the same way:
  \<open>main.go\<close> ends as a compile failure (no output file) and nothing is run, while
  \<open>main.GO\<close> passes the check for the artifact on its own source, and the source is
  started as the program. \<open>compile\<close> of the environment trims the extension the path
  has, and names the artifact \<open>main\<close> for \<open>main.GO\<close> as well.
\<close>

theorem upper_case_extension_takes_another_path:
  "ToLower (Ext ''/home/u/main.GO'') = ToLower (Ext ''/home/u/main.go'')
   \<and> map_option fst (returned (ExecuteFile (NewExecutor WORK_DIR) ''/home/u/main.go'' case_world))
     = Some (Inr \<lparr>Success = False, Output = [], Error = msg_no_output_file, ExitCode = 0,
                   ExecuteTime = 0, CompileTime = 5000, Compiled = True, Language = ''.go''\<rparr>)
   \<and> map_option (trace \<circ> snd)
         (returned (ExecuteFile (NewExecutor WORK_DIR) ''/home/u/main.go'' case_world))
     = Some [Spawn 100 ''go''
               [''build'', ''-o'', ''/tmp/smollm-sandbox/main'', ''/tmp/smollm-sandbox/main.go'']
               False]
   \<and> map_option fst (returned (ExecuteFile (NewExecutor WORK_DIR) ''/home/u/main.GO'' case_world))
     = Some (Inr \<lparr>Success = True, Output = [], Error = [], ExitCode = 0,
                   ExecuteTime = 5000, CompileTime = 5000, Compiled = True, Language = ''.go''\<rparr>)
   \<and> map_option (trace \<circ> snd)
         (returned (ExecuteFile (NewExecutor WORK_DIR) ''/home/u/main.GO'' case_world))
     = Some [Spawn 100 ''go''
               [''build'', ''-o'', ''/tmp/smollm-sandbox/main.GO'', ''/tmp/smollm-sandbox/main.GO'']
               False,
             Spawn 101 ''/tmp/smollm-sandbox/main.GO'' [] True]
   \<and> fst (compile NewEnvironment ''/tmp/smollm-sandbox/main.GO''
             \<lparr>Command = ''go'', Args = [''build''], OutputFlag = ''-o'',
               ErrorCodes = [1 \<mapsto> msg_go], NeedsCompiled = True\<rparr> case_world)
       = Inr ''/tmp/smollm-sandbox/main''"
proof -
  have e1: "ToLower (Ext ''/home/u/main.go'') = ''.go''"
    and e2: "ToLower (Ext ''/home/u/main.GO'') = ''.go''"
    and e3: "ToLower (Ext ''/tmp/smollm-sandbox/main.go'') = ''.go''"
    and e4: "ToLower (Ext ''/tmp/smollm-sandbox/main.GO'') = ''.go''"
    and e5: "Ext ''/tmp/smollm-sandbox/main.GO'' = ''.GO''"
    and t1: "Join ''/tmp/smollm-sandbox'' (Base ''/home/u/main.go'') = ''/tmp/smollm-sandbox/main.go''"
    and t2: "Join ''/tmp/smollm-sandbox'' (Base ''/home/u/main.GO'') = ''/tmp/smollm-sandbox/main.GO''"
    by (simp_all add: path_simps)
  have a: "map_option fst (returned (ExecuteFile (NewExecutor WORK_DIR) ''/home/u/main.go'' case_world))
     = Some (Inr \<lparr>Success = False, Output = [], Error = msg_no_output_file, ExitCode = 0,
                   ExecuteTime = 0, CompileTime = 5000, Compiled = True, Language = ''.go''\<rparr>)
   \<and> map_option (trace \<circ> snd)
         (returned (ExecuteFile (NewExecutor WORK_DIR) ''/home/u/main.go'' case_world))
     = Some [Spawn 100 ''go''
               [''build'', ''-o'', ''/tmp/smollm-sandbox/main'', ''/tmp/smollm-sandbox/main.go'']
               False]"
    by (simp add: e1 e3 t1 case_world_def world_simps exec_simps returned_def)
  have b: "map_option fst (returned (ExecuteFile (NewExecutor WORK_DIR) ''/home/u/main.GO'' case_world))
     = Some (Inr \<lparr>Success = True, Output = [], Error = [], ExitCode = 0,
                   ExecuteTime = 5000, CompileTime = 5000, Compiled = True, Language = ''.go''\<rparr>)
   \<and> map_option (trace \<circ> snd)
         (returned (ExecuteFile (NewExecutor WORK_DIR) ''/home/u/main.GO'' case_world))
     = Some [Spawn 100 ''go''
               [''build'', ''-o'', ''/tmp/smollm-sandbox/main.GO'', ''/tmp/smollm-sandbox/main.GO'']
               False,
             Spawn 101 ''/tmp/smollm-sandbox/main.GO'' [] True]"
    by (simp add: e2 e4 t2 case_world_def world_simps exec_simps returned_def)
  have c: "fst (compile NewEnvironment ''/tmp/smollm-sandbox/main.GO''
             \<lparr>Command = ''go'', Args = [''build''], OutputFlag = ''-o'',
               ErrorCodes = [1 \<mapsto> msg_go], NeedsCompiled = True\<rparr> case_world)
       = Inr ''/tmp/smollm-sandbox/main''"
    by (simp add: compile_def e5 NewEnvironment_def TrimSuffix_def HasSuffix_def timeout_of_def
          TIMEOUT_SECONDS_def seconds_def race_def exits_first_def case_world_def world_simps
          WORK_DIR_def Let_def)
  have e: "ToLower (Ext ''/home/u/main.GO'') = ToLower (Ext ''/home/u/main.go'')"
    by (simp only: e1 e2)
  show ?thesis
    using e a b c by (intro conjI) (elim conjE, assumption)+
qed

end
